theory Spec2Isabelle
  imports Main "HOL-Library.AList"
begin

section \<open>Data model\<close>

text \<open>
  The server of the notes hub (\<^verbatim>\<open>supabase/functions/server/index.tsx\<close>) is a set of
  HTTP handlers over two external services: a key-value store (\<^verbatim>\<open>kv.get\<close>,
  \<^verbatim>\<open>kv.set\<close>) and an object-storage bucket (\<^verbatim>\<open>supabase.storage\<close>). Each
  handler is modelled as a function from the request and the state of the two services
  to the HTTP response and the new state. The handlers that mutate are registered behind
  the \<^verbatim>\<open>requireAuth\<close> middleware; the functions below are the handler bodies, which
  run once that middleware has called \<^verbatim>\<open>next()\<close>. Where two routes have the shape of
  one request, the choice between their handlers is modelled as well.
\<close>

type_synonym bytes = "nat list"

text \<open>The browser \<^verbatim>\<open>File\<close> object of the multipart form: its name and its content.\<close>

record File =
  file_name :: string
  file_bytes :: bytes

text \<open>
  \<^verbatim>\<open>interface FileRecord { id; name; path; uploadedAt }\<close>. The field \<^verbatim>\<open>id\<close> is
  called \<open>id_fr\<close> here, since \<open>id\<close> is the identity function of HOL.
\<close>

record FileRecord =
  id_fr :: string
  name :: string
  path :: string
  uploadedAt :: string

text \<open>
  \<^verbatim>\<open>interface ContentStructure\<close>. The \<^verbatim>\<open>notes\<close> object is an association list in
  insertion order, which is the order \<^verbatim>\<open>Object.keys\<close> enumerates string keys in;
  \<^verbatim>\<open>notes[k]\<close> is \<open>map_of\<close> and \<^verbatim>\<open>notes[k] = v\<close> is \<open>AList.update\<close>.
\<close>

type_synonym notes_obj = "(string \<times> FileRecord list) list"

record ContentStructure =
  previousYearPapers :: "FileRecord list"
  iaPapers :: "FileRecord list"
  "notes" :: notes_obj

text \<open>
  A value read by \<^verbatim>\<open>JSON.parse\<close>, which is what \<^verbatim>\<open>c.req.json()\<close> gives and what
  the store keeps. A number stands as the text \<^verbatim>\<open>String(n)\<close> of the double it parses
  to: that text fixes all the handlers do with a number (only 0 and -0, both printed
  \<^verbatim>\<open>0\<close>, are falsy; a template literal prints the text; \<^verbatim>\<open>includes\<close> finds a
  number exactly when the texts agree). An object is the list of its members in
  insertion order, each key once.
\<close>

datatype json_value =
    JNull
  | JBool bool
  | JNumber string
  | JString string
  | JArray "json_value list"
  | JObject "(string \<times> json_value) list"

text \<open>
  Modelled from the spec: \<^verbatim>\<open>kv_store.tsx\<close> (\<^verbatim>\<open>kv.get\<close>, \<^verbatim>\<open>kv.set\<close>) is not among
  the sources. The spec's Catalog Store is a key-value store holding the subject list per
  (department, semester) and the file catalog per (department, semester, subject); a key
  never set reads as a falsy value. A subject list is the JSON array the handlers store:
  its elements are the values they pushed, strings when the request gave strings. The handlers keep subject lists only under keys that
  begin \<^verbatim>\<open>subjects_\<close> and catalogs only under keys that begin \<^verbatim>\<open>content_\<close> and
  go on with two more underscores (which sets them apart from the key
  \<^verbatim>\<open>content_structure\<close> of the structure route), so the store is two tables, each
  indexed by the full key string the handler computes. A call of the store is taken to
  return, and a key reads as the value last set for it: a store that throws or alters
  values is outside the model.

  Modelled from the spec: the Blob Store is external object storage addressed by path.
  The handlers read the outcome of a call from the \<^verbatim>\<open>error\<close> member of its result;
  whether that member is set is an input of the handler. A successful upload binds the
  path to the bytes and a successful remove unbinds it.

  \<open>console\<close> collects the messages of \<^verbatim>\<open>console.error\<close>, oldest first.
\<close>

record server_state =
  subjectLists :: "string \<rightharpoonup> json_value list"
  catalogs :: "string \<rightharpoonup> ContentStructure"
  storage :: "string \<rightharpoonup> bytes"
  console :: "string list"

datatype json =
    ErrorJ string
  | MessageJ string
  | UploadedJ string FileRecord
  | ContentJ ContentStructure
  | SubjectsJ "json_value list"

text \<open>\<^verbatim>\<open>c.json(body, status)\<close>; the status is 200 when the call gives none.\<close>

datatype response = Response (status: nat) (body: json)

section \<open>JavaScript helpers\<close>

text \<open>
  A field of the multipart form, which the upload handlers cast to \<^verbatim>\<open>string\<close>: a
  string, or absent (\<^verbatim>\<open>null\<close>). It is truthy when it is present and not the empty
  string.
\<close>

definition truthy :: "string option \<Rightarrow> bool" where
  "truthy v = (case v of None \<Rightarrow> False | Some s \<Rightarrow> s \<noteq> [])"

text \<open>A value inside a template literal: \<^verbatim>\<open>`${v}`\<close>.\<close>

definition js_str :: "string option \<Rightarrow> string" where
  "js_str v = (case v of None \<Rightarrow> ''null'' | Some s \<Rightarrow> s)"

text \<open>
  A member of the parsed JSON body, or \<open>None\<close> for \<^verbatim>\<open>undefined\<close>. It is falsy when
  it is \<^verbatim>\<open>undefined\<close>, \<^verbatim>\<open>null\<close>, \<^verbatim>\<open>false\<close>, zero or the empty string; every
  array and every object is truthy.
\<close>

fun js_truthy :: "json_value option \<Rightarrow> bool" where
  "js_truthy None = False"
| "js_truthy (Some JNull) = False"
| "js_truthy (Some (JBool b)) = b"
| "js_truthy (Some (JNumber t)) = (t \<noteq> ''0'')"
| "js_truthy (Some (JString s)) = (s \<noteq> [])"
| "js_truthy (Some (JArray xs)) = True"
| "js_truthy (Some (JObject ms)) = True"

text \<open>
  \<^verbatim>\<open>ToString\<close> of a parsed value, as a template literal applies it; \<open>None\<close> is the
  \<^verbatim>\<open>TypeError\<close> it throws. An array prints as its elements joined by commas, with
  \<^verbatim>\<open>null\<close> printed empty. An object prints through \<^verbatim>\<open>Object.prototype.toString\<close>,
  unless it has a member \<^verbatim>\<open>toString\<close> of its own: that member is not callable, and
  neither \<^verbatim>\<open>valueOf\<close> gives a primitive, so the conversion throws.
\<close>

fun js_to_string :: "json_value \<Rightarrow> string option"
  and js_join :: "json_value list \<Rightarrow> string option" where
  "js_to_string JNull = Some ''null''"
| "js_to_string (JBool b) = Some (if b then ''true'' else ''false'')"
| "js_to_string (JNumber t) = Some t"
| "js_to_string (JString s) = Some s"
| "js_to_string (JArray xs) = js_join xs"
| "js_to_string (JObject ms) =
     (if ''toString'' \<in> set (map fst ms) then None else Some ''[object Object]'')"
| "js_join [] = Some []"
| "js_join (x # xs) =
     (case (if x = JNull then Some [] else js_to_string x) of
        None \<Rightarrow> None
      | Some a \<Rightarrow>
          if xs = [] then Some a
          else (case js_join xs of None \<Rightarrow> None | Some b \<Rightarrow> Some (a @ '','' @ b)))"

text \<open>
  \<^verbatim>\<open>xs.includes(v)\<close>. The elements of \<open>xs\<close> come out of the store and \<open>v\<close> out of the
  request, so a \<open>v\<close> that is an array or an object (\<open>js_is_object\<close>) is identical to
  none of them; a string, a number or a boolean is found when an element has the same
  value.
\<close>

fun js_is_object :: "json_value \<Rightarrow> bool" where
  "js_is_object (JArray ys) = True"
| "js_is_object (JObject ms) = True"
| "js_is_object v = False"

definition js_includes :: "json_value list \<Rightarrow> json_value \<Rightarrow> bool" where
  "js_includes xs v = (if js_is_object v then False else v \<in> set xs)"

text \<open>
  A property read \<^verbatim>\<open>body.k\<close> for one of the names \<^verbatim>\<open>department\<close>,
  \<^verbatim>\<open>semester\<close>, \<^verbatim>\<open>subject\<close>, which no prototype defines: the member of an object,
  \<^verbatim>\<open>undefined\<close> on an array, a string, a number or a boolean. Reading from
  \<^verbatim>\<open>null\<close> throws and is the caller's case.
\<close>

fun json_member :: "json_value \<Rightarrow> string \<Rightarrow> json_value option" where
  "json_member (JObject ms) k = map_of ms k"
| "json_member v k = None"

text \<open>The decimal digits of \<^verbatim>\<open>Date.now()\<close>, as \<^verbatim>\<open>toString()\<close> prints them.\<close>

definition digit_char :: "nat \<Rightarrow> char" where
  "digit_char d = ''0123456789'' ! d"

function string_of_nat :: "nat \<Rightarrow> string" where
  "string_of_nat n =
     (if n < 10 then [digit_char n]
      else string_of_nat (n div 10) @ [digit_char (n mod 10)])"
  by pat_completeness auto
termination
  by (relation "measure id") auto

declare string_of_nat.simps [simp del]

text \<open>
  \<^verbatim>\<open>notes[module]\<close> read as a list. The handlers read it for a module that is a key
  of the object; for any other string the model gives the empty list, which no loop
  enters.
\<close>

definition notes_at :: "notes_obj \<Rightarrow> string \<Rightarrow> FileRecord list" where
  "notes_at ns module = (case map_of ns module of None \<Rightarrow> [] | Some bucket \<Rightarrow> bucket)"

text \<open>
  The catalog a handler uses when \<^verbatim>\<open>kv.get(key)\<close> is falsy:
  \<^verbatim>\<open>{ previousYearPapers: [], iaPapers: [], notes: { module1: [], ..., module5: [] } }\<close>.
\<close>

definition default_content :: ContentStructure where
  "default_content =
     \<lparr> previousYearPapers = [], iaPapers = [],
       notes = [(''module1'', []), (''module2'', []), (''module3'', []),
                (''module4'', []), (''module5'', [])] \<rparr>"

text \<open>
  The keys of the store: \<^verbatim>\<open>`content_${department}_${semester}_${subject}`\<close> and
  \<^verbatim>\<open>`subjects_${department}_${semester}`\<close>.
\<close>

definition content_key :: "string \<Rightarrow> string \<Rightarrow> string \<Rightarrow> string" where
  "content_key department semester subject =
     ''content_'' @ department @ ''_'' @ semester @ ''_'' @ subject"

definition subjects_key :: "string \<Rightarrow> string \<Rightarrow> string" where
  "subjects_key department semester = ''subjects_'' @ department @ ''_'' @ semester"

section \<open>GET /content/subjects/:department/:semester and GET /content/:department/:semester/:subject\<close>

text \<open>Lines 102 to 114, the handler of the subjects route.\<close>

definition content_subjects_handler ::
  "string \<Rightarrow> string \<Rightarrow> server_state \<Rightarrow> response \<times> server_state" where
  "content_subjects_handler department semester st =
     (let key = subjects_key department semester;
          subjects = (case subjectLists st key of None \<Rightarrow> [] | Some xs \<Rightarrow> xs)
      in (Response 200 (SubjectsJ subjects), st))"

text \<open>Lines 117 to 135, the handler of the catalog route.\<close>

definition content_handler ::
  "string \<Rightarrow> string \<Rightarrow> string \<Rightarrow> server_state \<Rightarrow> response \<times> server_state" where
  "content_handler department semester subject st =
     (let key = content_key department semester subject;
          content = (case catalogs st key of None \<Rightarrow> default_content | Some c \<Rightarrow> c)
      in (Response 200 (ContentJ content), st))"

text \<open>
  A \<^verbatim>\<open>GET\<close> of \<^verbatim>\<open>/make-server-fd1978ca/content/a/b/c\<close>, with \<open>a\<close>, \<open>b\<close>, \<open>c\<close> the
  three decoded path segments. Two routes have this shape, and the one registered first
  answers: the subjects route of line 102 when \<open>a\<close> is the word \<^verbatim>\<open>subjects\<close> (its
  parameters are then \<open>b\<close> and \<open>c\<close>), the catalog route of line 117 otherwise. The
  other \<^verbatim>\<open>GET\<close> routes (\<^verbatim>\<open>/health\<close>, \<^verbatim>\<open>/content/structure\<close>,
  \<^verbatim>\<open>/download/:filePath\<close>) have fewer segments.
\<close>

definition get_content_route ::
  "string \<Rightarrow> string \<Rightarrow> string \<Rightarrow> server_state \<Rightarrow> response \<times> server_state" where
  "get_content_route a b c st =
     (if a = ''subjects'' then content_subjects_handler b c st
      else content_handler a b c st)"

section \<open>POST /subjects\<close>

text \<open>
  Lines 155 to 176. \<open>requestBody\<close> is what \<^verbatim>\<open>c.req.json()\<close> gives: \<open>None\<close> when the request
  body is not JSON and the call throws. Destructuring \<^verbatim>\<open>null\<close> throws as well, and so
  does the template literal of the key on a department or semester that has no string
  form; the \<^verbatim>\<open>catch\<close> logs each throw and answers 500. The members are used as they
  are: the handler neither casts nor checks their types.
\<close>

definition post_subjects ::
  "json_value option \<Rightarrow> server_state \<Rightarrow> response \<times> server_state" where
  "post_subjects requestBody st =
     (let thrown =
            (Response 500 (ErrorJ ''Internal server error during subject addition''),
             st\<lparr>console := console st @ [''Add subject server error:'']\<rparr>)
      in case requestBody of
           None \<Rightarrow> thrown
         | Some JNull \<Rightarrow> thrown
         | Some parsed \<Rightarrow>
            let department = json_member parsed ''department'';
                semester = json_member parsed ''semester'';
                subject = json_member parsed ''subject''
            in if \<not> js_truthy department \<or> \<not> js_truthy semester \<or> \<not> js_truthy subject
               then (Response 400 (ErrorJ ''Missing required fields''), st)
               else
                 (case (department, semester, subject) of
                    (Some d, Some s, Some subj) \<Rightarrow>
                      (case (js_to_string d, js_to_string s) of
                         (Some dtext, Some stext) \<Rightarrow>
                           let subjectsKey = subjects_key dtext stext;
                               existingSubjects =
                                 (case subjectLists st subjectsKey of
                                    None \<Rightarrow> [] | Some xs \<Rightarrow> xs)
                           in (Response 200 (MessageJ ''Subject added successfully''),
                               if js_includes existingSubjects subj then st
                               else st\<lparr>subjectLists :=
                                      (subjectLists st)
                                        (subjectsKey \<mapsto> existingSubjects @ [subj])\<rparr>)
                       | _ \<Rightarrow> thrown)
                  | _ \<Rightarrow> (Response 400 (ErrorJ ''Missing required fields''), st)))"

section \<open>POST /upload and POST /admin/upload\<close>

text \<open>
  What the handler reads from outside the request and the stores: the clock at
  \<^verbatim>\<open>Date.now()\<close> of the file name (line 263), at \<^verbatim>\<open>Date.now()\<close> of the record id
  (line 293) and at \<^verbatim>\<open>toISOString()\<close> (line 296), and whether the storage upload
  returns an error.
\<close>

record upload_env =
  now_name :: nat
  now_id :: nat
  now_iso :: string
  upload_error :: bool

text \<open>
  Lines 179 to 245, the compatibility route. The arguments are the six form fields.
  Past the check of line 189 the file is present and the four fields it tests are
  non-empty strings, which \<open>js_str\<close> returns as they are; \<^verbatim>\<open>module\<close> may still
  be absent or empty.
  Appending to a notes bucket that the object does not have is a \<^verbatim>\<open>TypeError\<close>
  (\<^verbatim>\<open>undefined.push\<close>), which the \<^verbatim>\<open>catch\<close> turns into a 500 response; the state
  it leaves is the state at the throw.
\<close>

definition post_upload ::
  "upload_env \<Rightarrow> File option \<Rightarrow> string option \<Rightarrow> string option \<Rightarrow> string option
     \<Rightarrow> string option \<Rightarrow> string option \<Rightarrow> server_state \<Rightarrow> response \<times> server_state" where
  "post_upload env file department semester subject contentType module st =
     (case file of
        None \<Rightarrow> (Response 400 (ErrorJ ''Missing required fields''), st)
      | Some f \<Rightarrow>
        if \<not> truthy department \<or> \<not> truthy semester \<or> \<not> truthy subject
           \<or> \<not> truthy contentType
        then (Response 400 (ErrorJ ''Missing required fields''), st)
        else
          let fileName = string_of_nat (now_name env) @ ''_'' @ file_name f;
              filePath = js_str department @ ''/'' @ js_str semester @ ''/''
                @ js_str subject @ ''/'' @ js_str contentType @ ''/''
                @ (if truthy module then ''module'' @ js_str module @ ''/'' else [])
                @ fileName
          in
          if upload_error env
          then (Response 500 (ErrorJ ''Failed to upload file''),
                st\<lparr>console := console st @ [''File upload error:'']\<rparr>)
          else
            let st1 = st\<lparr>storage := (storage st)(filePath \<mapsto> file_bytes f)\<rparr>;
                subjectsKey = subjects_key (js_str department) (js_str semester);
                existingSubjects =
                  (case subjectLists st1 subjectsKey of None \<Rightarrow> [] | Some xs \<Rightarrow> xs);
                st2 =
                  (if js_includes existingSubjects (JString (js_str subject)) then st1
                   else st1\<lparr>subjectLists :=
                     (subjectLists st1)
                       (subjectsKey \<mapsto> existingSubjects @ [JString (js_str subject)])\<rparr>);
                contentKey =
                  content_key (js_str department) (js_str semester) (js_str subject);
                existingContent =
                  (case catalogs st2 contentKey of None \<Rightarrow> default_content | Some c \<Rightarrow> c);
                fileRecord = \<lparr> id_fr = string_of_nat (now_id env), name = file_name f,
                               path = filePath, uploadedAt = now_iso env \<rparr>;
                pushed =
                  (if contentType = Some ''previousYearPaper''
                   then Some (existingContent\<lparr>previousYearPapers :=
                          previousYearPapers existingContent @ [fileRecord]\<rparr>)
                   else if contentType = Some ''iaPaper''
                   then Some (existingContent\<lparr>iaPapers :=
                          iaPapers existingContent @ [fileRecord]\<rparr>)
                   else if contentType = Some ''notes'' \<and> truthy module
                   then (case map_of (notes existingContent) (''module'' @ js_str module) of
                           None \<Rightarrow> None
                         | Some bucket \<Rightarrow>
                             Some (existingContent\<lparr>notes :=
                               AList.update (''module'' @ js_str module)
                                 (bucket @ [fileRecord]) (notes existingContent)\<rparr>))
                   else Some existingContent)
            in (case pushed of
                  None \<Rightarrow>
                    (Response 500 (ErrorJ ''Internal server error during file upload''),
                     st2\<lparr>console := console st2 @ [''Upload server error:'']\<rparr>)
                | Some content \<Rightarrow>
                    (Response 200 (UploadedJ ''File uploaded successfully'' fileRecord),
                     st2\<lparr>catalogs := (catalogs st2)(contentKey \<mapsto> content)\<rparr>)))"

text \<open>Lines 248 to 314, the admin route.\<close>

definition post_admin_upload ::
  "upload_env \<Rightarrow> File option \<Rightarrow> string option \<Rightarrow> string option \<Rightarrow> string option
     \<Rightarrow> string option \<Rightarrow> string option \<Rightarrow> server_state \<Rightarrow> response \<times> server_state" where
  "post_admin_upload env file department semester subject contentType module st =
     (case file of
        None \<Rightarrow> (Response 400 (ErrorJ ''Missing required fields''), st)
      | Some f \<Rightarrow>
        if \<not> truthy department \<or> \<not> truthy semester \<or> \<not> truthy subject
           \<or> \<not> truthy contentType
        then (Response 400 (ErrorJ ''Missing required fields''), st)
        else
          let fileName = string_of_nat (now_name env) @ ''_'' @ file_name f;
              filePath = js_str department @ ''/'' @ js_str semester @ ''/''
                @ js_str subject @ ''/'' @ js_str contentType @ ''/''
                @ (if truthy module then ''module'' @ js_str module @ ''/'' else [])
                @ fileName
          in
          if upload_error env
          then (Response 500 (ErrorJ ''Failed to upload file''),
                st\<lparr>console := console st @ [''File upload error:'']\<rparr>)
          else
            let st1 = st\<lparr>storage := (storage st)(filePath \<mapsto> file_bytes f)\<rparr>;
                subjectsKey = subjects_key (js_str department) (js_str semester);
                existingSubjects =
                  (case subjectLists st1 subjectsKey of None \<Rightarrow> [] | Some xs \<Rightarrow> xs);
                st2 =
                  (if js_includes existingSubjects (JString (js_str subject)) then st1
                   else st1\<lparr>subjectLists :=
                     (subjectLists st1)
                       (subjectsKey \<mapsto> existingSubjects @ [JString (js_str subject)])\<rparr>);
                contentKey =
                  content_key (js_str department) (js_str semester) (js_str subject);
                existingContent =
                  (case catalogs st2 contentKey of None \<Rightarrow> default_content | Some c \<Rightarrow> c);
                fileRecord = \<lparr> id_fr = string_of_nat (now_id env), name = file_name f,
                               path = filePath, uploadedAt = now_iso env \<rparr>;
                pushed =
                  (if contentType = Some ''previousYearPaper''
                   then Some (existingContent\<lparr>previousYearPapers :=
                          previousYearPapers existingContent @ [fileRecord]\<rparr>)
                   else if contentType = Some ''iaPaper''
                   then Some (existingContent\<lparr>iaPapers :=
                          iaPapers existingContent @ [fileRecord]\<rparr>)
                   else if contentType = Some ''notes'' \<and> truthy module
                   then (case map_of (notes existingContent) (''module'' @ js_str module) of
                           None \<Rightarrow> None
                         | Some bucket \<Rightarrow>
                             Some (existingContent\<lparr>notes :=
                               AList.update (''module'' @ js_str module)
                                 (bucket @ [fileRecord]) (notes existingContent)\<rparr>))
                   else Some existingContent)
            in (case pushed of
                  None \<Rightarrow>
                    (Response 500 (ErrorJ ''Internal server error during file upload''),
                     st2\<lparr>console := console st2 @ [''Upload server error:'']\<rparr>)
                | Some content \<Rightarrow>
                    (Response 200 (UploadedJ ''File uploaded successfully'' fileRecord),
                     st2\<lparr>catalogs := (catalogs st2)(contentKey \<mapsto> content)\<rparr>)))"

section \<open>DELETE /admin/delete/:department/:semester/:subject/:fileId\<close>

text \<open>
  The loop \<^verbatim>\<open>for (const paper of papers) { if (paper.id === fileId) { ...; break } }\<close>:
  the first record of the list with that id, if there is one.
\<close>

fun find_paper :: "string \<Rightarrow> FileRecord list \<Rightarrow> FileRecord option" where
  "find_paper fileId [] = None"
| "find_paper fileId (paper # papers) =
     (if id_fr paper = fileId then Some paper else find_paper fileId papers)"

text \<open>
  Lines 475 to 485: the loop over \<^verbatim>\<open>Object.keys(content.notes)\<close>, with the inner loop
  over \<^verbatim>\<open>content.notes[module]\<close>; it gives the module and the note at which both loops
  break.
\<close>

fun find_note :: "string \<Rightarrow> notes_obj \<Rightarrow> string list \<Rightarrow> (string \<times> FileRecord) option" where
  "find_note fileId ns [] = None"
| "find_note fileId ns (module # modules) =
     (case find_paper fileId (notes_at ns module) of
        Some note \<Rightarrow> Some (module, note)
      | None \<Rightarrow> find_note fileId ns modules)"

text \<open>
  Lines 450 to 486: \<^verbatim>\<open>fileToDelete\<close> and the catalog as the three searches leave it,
  or \<open>None\<close> when \<^verbatim>\<open>found\<close> stays false.
\<close>

definition find_and_remove ::
  "string \<Rightarrow> ContentStructure \<Rightarrow> (FileRecord \<times> ContentStructure) option" where
  "find_and_remove fileId content =
     (case find_paper fileId (previousYearPapers content) of
        Some paper \<Rightarrow>
          Some (paper, content\<lparr>previousYearPapers :=
                  filter (\<lambda>p. id_fr p \<noteq> fileId) (previousYearPapers content)\<rparr>)
      | None \<Rightarrow>
         (case find_paper fileId (iaPapers content) of
            Some paper \<Rightarrow>
              Some (paper, content\<lparr>iaPapers :=
                      filter (\<lambda>p. id_fr p \<noteq> fileId) (iaPapers content)\<rparr>)
          | None \<Rightarrow>
             (case find_note fileId (notes content) (map fst (notes content)) of
                Some (module, note) \<Rightarrow>
                  Some (note, content\<lparr>notes :=
                          AList.update module
                            (filter (\<lambda>n. id_fr n \<noteq> fileId)
                               (notes_at (notes content) module))
                            (notes content)\<rparr>)
              | None \<Rightarrow> None)))"

text \<open>
  Lines 436 to 509. \<open>remove_error\<close> says whether \<^verbatim>\<open>storage.remove\<close> returns an
  error.
\<close>

definition delete_admin_delete ::
  "bool \<Rightarrow> string \<Rightarrow> string \<Rightarrow> string \<Rightarrow> string \<Rightarrow> server_state
     \<Rightarrow> response \<times> server_state" where
  "delete_admin_delete remove_error department semester subject fileId st =
     (let contentKey = content_key department semester subject
      in case catalogs st contentKey of
           None \<Rightarrow> (Response 404 (ErrorJ ''Content not found''), st)
         | Some content \<Rightarrow>
            (case find_and_remove fileId content of
               None \<Rightarrow> (Response 404 (ErrorJ ''File not found''), st)
             | Some (fileToDelete, content') \<Rightarrow>
                 let st1 =
                   (if remove_error
                    then st\<lparr>console := console st @ [''Error deleting file from storage:'']\<rparr>
                    else st\<lparr>storage := (storage st)(path fileToDelete := None)\<rparr>)
                 in (Response 200 (MessageJ ''File deleted successfully''),
                     st1\<lparr>catalogs := (catalogs st1)(contentKey \<mapsto> content')\<rparr>)))"

section \<open>The catalog as the specification sees it\<close>

text \<open>
  The specification speaks of the buckets of a catalog (the previous-year papers, the IA
  papers and the notes of each module) and of the order in which a delete searches them.
  These definitions follow its words and use none of the functions of the handlers; the
  theorems below compare the handlers with them.
\<close>

datatype bucket_id = PreviousYearPapers | IaPapers | Notes string

text \<open>The records of a bucket; a module the notes object does not have holds none.\<close>

fun bucket :: "ContentStructure \<Rightarrow> bucket_id \<Rightarrow> FileRecord list" where
  "bucket c PreviousYearPapers = previousYearPapers c"
| "bucket c IaPapers = iaPapers c"
| "bucket c (Notes m) = (case map_of (notes c) m of None \<Rightarrow> [] | Some rs \<Rightarrow> rs)"

text \<open>
  The fixed order of a search: the previous-year papers, the IA papers, then the modules
  in the key order of the notes object; and all records of the catalog in that order.
\<close>

definition search_order :: "ContentStructure \<Rightarrow> bucket_id list" where
  "search_order c = PreviousYearPapers # IaPapers # map Notes (map fst (notes c))"

definition search_sequence :: "ContentStructure \<Rightarrow> FileRecord list" where
  "search_sequence c = concat (map (bucket c) (search_order c))"

text \<open>The first bucket, in search order, that holds a record with the id.\<close>

definition first_bucket :: "string \<Rightarrow> ContentStructure \<Rightarrow> bucket_id option" where
  "first_bucket fileId c =
     find (\<lambda>b. fileId \<in> set (map id_fr (bucket c b))) (search_order c)"

text \<open>
  The catalog with the records of an id taken out of one bucket: the other records of
  that bucket keep their order, and the other buckets and the keys of the notes object
  are as they were.
\<close>

fun without_id :: "string \<Rightarrow> bucket_id \<Rightarrow> ContentStructure \<Rightarrow> ContentStructure" where
  "without_id fileId PreviousYearPapers c =
     c\<lparr>previousYearPapers := filter (\<lambda>r. id_fr r \<noteq> fileId) (previousYearPapers c)\<rparr>"
| "without_id fileId IaPapers c =
     c\<lparr>iaPapers := filter (\<lambda>r. id_fr r \<noteq> fileId) (iaPapers c)\<rparr>"
| "without_id fileId (Notes m) c =
     c\<lparr>notes := AList.update m (filter (\<lambda>r. id_fr r \<noteq> fileId) (bucket c (Notes m)))
                  (notes c)\<rparr>"

text \<open>
  The storage path as the claim on it words it: the segment \<^verbatim>\<open>module{n}/\<close> stands
  exactly when the content type is notes and a module is given.
\<close>

definition claimed_path ::
  "nat \<Rightarrow> string \<Rightarrow> string \<Rightarrow> string \<Rightarrow> string \<Rightarrow> string option \<Rightarrow> string \<Rightarrow> string" where
  "claimed_path timestamp department semester subject contentType module filename =
     department @ ''/'' @ semester @ ''/'' @ subject @ ''/'' @ contentType @ ''/''
     @ (if contentType = ''notes'' \<and> truthy module then ''module'' @ js_str module @ ''/''
        else [])
     @ string_of_nat timestamp @ ''_'' @ filename"

section \<open>Example requests\<close>

definition empty_state :: server_state where
  "empty_state =
     \<lparr> subjectLists = Map.empty, catalogs = Map.empty, storage = Map.empty, console = [] \<rparr>"

definition exam_pdf :: File where
  "exam_pdf = \<lparr> file_name = ''exam.pdf'', file_bytes = [37, 80, 68, 70] \<rparr>"

definition notes_pdf :: File where
  "notes_pdf = \<lparr> file_name = ''unit.pdf'', file_bytes = [37, 80, 68, 70, 45] \<rparr>"

text \<open>A request served with the clock at 41 ms and then 42 ms, the upload succeeding.\<close>

definition env_41_42 :: upload_env where
  "env_41_42 = \<lparr> now_name = 41, now_id = 42, now_iso = ''1970-01-01T00:00:00.042Z'',
                  upload_error = False \<rparr>"

text \<open>A second request served within the millisecond 42.\<close>

definition env_42_42 :: upload_env where
  "env_42_42 = \<lparr> now_name = 42, now_id = 42, now_iso = ''1970-01-01T00:00:00.042Z'',
                  upload_error = False \<rparr>"

text \<open>
  The state after \<^verbatim>\<open>exam.pdf\<close> is uploaded as a previous-year paper of
  (CSE, 3, DS), and the state after \<^verbatim>\<open>unit.pdf\<close> is then uploaded to the same
  bucket within the same millisecond.
\<close>

definition one_paper_state :: server_state where
  "one_paper_state =
     snd (post_admin_upload env_41_42 (Some exam_pdf) (Some ''CSE'') (Some ''3'')
            (Some ''DS'') (Some ''previousYearPaper'') None empty_state)"

definition two_papers_state :: server_state where
  "two_papers_state =
     snd (post_admin_upload env_42_42 (Some notes_pdf) (Some ''CSE'') (Some ''3'')
            (Some ''DS'') (Some ''previousYearPaper'') None one_paper_state)"

text \<open>A third request, served at 43 ms and then 44 ms, with a third file.\<close>

definition lab_pdf :: File where
  "lab_pdf = \<lparr> file_name = ''lab.pdf'', file_bytes = [37, 80, 68, 70, 49] \<rparr>"

definition env_43_44 :: upload_env where
  "env_43_44 = \<lparr> now_name = 43, now_id = 44, now_iso = ''1970-01-01T00:00:00.044Z'',
                  upload_error = False \<rparr>"

text \<open>
  The state after the two previous-year papers of one millisecond, \<^verbatim>\<open>lab.pdf\<close>
  uploaded as an IA paper, and a fourth upload (\<^verbatim>\<open>exam.pdf\<close> once more, as notes of
  module 2) that takes the id 44 as well.
\<close>

definition four_files_state :: server_state where
  "four_files_state =
     snd (post_admin_upload env_43_44 (Some exam_pdf) (Some ''CSE'') (Some ''3'')
            (Some ''DS'') (Some ''notes'') (Some ''2'')
       (snd (post_admin_upload env_43_44 (Some lab_pdf) (Some ''CSE'') (Some ''3'')
            (Some ''DS'') (Some ''iaPaper'') None two_papers_state)))"

text \<open>
  The body \<^verbatim>\<open>{"department": "CSE", "semester": "3", "subject": "DS"}\<close> of the admin
  page, and the same body with the subject sent as the array \<^verbatim>\<open>["DS"]\<close>.
\<close>

definition string_subject_body :: json_value where
  "string_subject_body =
     JObject [(''department'', JString ''CSE''), (''semester'', JString ''3''),
              (''subject'', JString ''DS'')]"

definition array_subject_body :: json_value where
  "array_subject_body =
     JObject [(''department'', JString ''CSE''), (''semester'', JString ''3''),
              (''subject'', JArray [JString ''DS''])]"

section \<open>Properties\<close>

subsection \<open>Reading a catalog\<close>

text \<open>
  C2, as the server has it. A \<^verbatim>\<open>GET\<close> of \<^verbatim>\<open>/content/department/semester/subject\<close>
  whose department is not the word \<^verbatim>\<open>subjects\<close>, for a catalog key that was never
  written, is answered 200 with the zero-value catalog: no previous-year papers, no IA
  papers, and a notes object with exactly the keys module1 to module5, each bound to
  the empty list. The state after the call is the state before it, so the default is not
  persisted.
\<close>

theorem get_content_default:
  assumes "department \<noteq> ''subjects''"
    and "catalogs st (content_key department semester subject) = None"
  shows "get_content_route department semester subject st =
           (Response 200 (ContentJ default_content), st)
         \<and> previousYearPapers default_content = []
         \<and> iaPapers default_content = []
         \<and> notes default_content =
             [(''module1'', []), (''module2'', []), (''module3'', []),
              (''module4'', []), (''module5'', [])]"
  using assms
  by (simp add: get_content_route_def content_handler_def default_content_def)

theorem get_content_default_witness:
  "''CSE'' \<noteq> ''subjects''
   \<and> catalogs empty_state (content_key ''CSE'' ''3'' ''DS'') = None
   \<and> get_content_route ''CSE'' ''3'' ''DS'' empty_state
       = (Response 200 (ContentJ default_content), empty_state)"
proof -
  have d: "''CSE'' \<noteq> ''subjects''" by simp
  have k: "catalogs empty_state (content_key ''CSE'' ''3'' ''DS'') = None"
    by (simp add: empty_state_def)
  from get_content_default [OF d k] d k show ?thesis by blast
qed

text \<open>
  The claim as worded speaks of every department. With the word \<^verbatim>\<open>subjects\<close> in
  the place of the department the request has the shape of the subjects route, which is
  registered first: on the empty store, where the catalog key of (subjects, 3, DS) was
  never written, the answer is the empty subject list of (3, DS) and not a catalog.
\<close>

theorem get_content_subjects_counterexample:
  "catalogs empty_state (content_key ''subjects'' ''3'' ''DS'') = None
   \<and> get_content_route ''subjects'' ''3'' ''DS'' empty_state
       = (Response 200 (SubjectsJ []), empty_state)"
  by (simp add: get_content_route_def content_subjects_handler_def empty_state_def)

subsection \<open>The search of the delete handler\<close>

text \<open>The loop over a list is \<open>find\<close> on the id.\<close>

lemma find_paper_find: "find_paper fileId rs = find (\<lambda>r. id_fr r = fileId) rs"
  by (induction rs) simp_all

lemma find_paper_None: "find_paper fileId rs = None \<longleftrightarrow> fileId \<notin> id_fr ` set rs"
  by (induction rs) auto

lemma find_paper_Some: "find_paper fileId rs = Some r \<Longrightarrow> r \<in> set rs \<and> id_fr r = fileId"
  by (induction rs) (auto split: if_splits)

lemma find_note_None:
  "find_note fileId ns ms = None \<longleftrightarrow> (\<forall>m \<in> set ms. fileId \<notin> id_fr ` set (notes_at ns m))"
  by (induction ms) (force simp: find_paper_None dest: find_paper_Some split: option.splits)+

text \<open>
  When the notes loop breaks at module \<open>m\<close>, no module before \<open>m\<close> in the key order
  holds the id, and the note is the first of module \<open>m\<close> with the id.
\<close>

lemma find_note_Some:
  "find_note fileId ns ms = Some (m, r) \<Longrightarrow>
     \<exists>pre post. ms = pre @ m # post
       \<and> (\<forall>m' \<in> set pre. fileId \<notin> id_fr ` set (notes_at ns m'))
       \<and> find_paper fileId (notes_at ns m) = Some r"
proof (induction ms)
  case Nil
  then show ?case by simp
next
  case (Cons a ms)
  show ?case
  proof (cases "find_paper fileId (notes_at ns a)")
    case None
    with Cons.prems have "find_note fileId ns ms = Some (m, r)" by simp
    from Cons.IH [OF this] obtain pre post where
      "ms = pre @ m # post" "\<forall>m' \<in> set pre. fileId \<notin> id_fr ` set (notes_at ns m')"
      "find_paper fileId (notes_at ns m) = Some r" by blast
    with None have "a # ms = (a # pre) @ m # post
       \<and> (\<forall>m' \<in> set (a # pre). fileId \<notin> id_fr ` set (notes_at ns m'))
       \<and> find_paper fileId (notes_at ns m) = Some r"
      by (simp add: find_paper_None)
    then show ?thesis by blast
  next
    case (Some x)
    with Cons.prems have "a = m" "x = r" by simp_all
    with Some have "a # ms = [] @ m # ms
       \<and> (\<forall>m' \<in> set []. fileId \<notin> id_fr ` set (notes_at ns m'))
       \<and> find_paper fileId (notes_at ns m) = Some r" by simp
    then show ?thesis by blast
  qed
qed

text \<open>The module read of the handlers is the notes bucket of the specification.\<close>

lemma notes_at_bucket: "notes_at (notes c) m = bucket c (Notes m)"
  by (simp add: notes_at_def)

lemma find_and_remove_None:
  "find_and_remove fileId c = None \<longleftrightarrow> fileId \<notin> id_fr ` set (search_sequence c)"
proof -
  have "find_and_remove fileId c = None \<longleftrightarrow>
        find_paper fileId (previousYearPapers c) = None
        \<and> find_paper fileId (iaPapers c) = None
        \<and> find_note fileId (notes c) (map fst (notes c)) = None"
    by (auto simp: find_and_remove_def split: option.splits)
  also have "\<dots> \<longleftrightarrow> fileId \<notin> id_fr ` set (previousYearPapers c)
        \<and> fileId \<notin> id_fr ` set (iaPapers c)
        \<and> (\<forall>m \<in> set (map fst (notes c)). fileId \<notin> id_fr ` set (bucket c (Notes m)))"
    by (simp only: find_paper_None find_note_None notes_at_bucket)
  also have "\<dots> \<longleftrightarrow> fileId \<notin> id_fr ` set (search_sequence c)"
    by (auto simp: search_sequence_def search_order_def simp del: bucket.simps(3))
  finally show ?thesis .
qed

text \<open>
  What a successful search leaves: the buckets of the catalog, taken in search order,
  up to the first one that holds the id; the catalog is stored with the records of the
  id taken out of that bucket.
\<close>

lemma find_and_remove_Some:
  assumes "find_and_remove fileId c = Some (r, c')"
  shows "\<exists>b pre post. search_order c = pre @ b # post
     \<and> (\<forall>b' \<in> set pre. fileId \<notin> id_fr ` set (bucket c b'))
     \<and> find_paper fileId (bucket c b) = Some r
     \<and> c' = without_id fileId b c"
proof (cases "find_paper fileId (previousYearPapers c)")
  case (Some p)
  with assms have "p = r"
    and "c' = without_id fileId PreviousYearPapers c"
    by (simp_all add: find_and_remove_def)
  moreover have
    "search_order c = [] @ PreviousYearPapers # IaPapers # map Notes (map fst (notes c))"
    by (simp add: search_order_def)
  moreover have "\<forall>b' \<in> set []. fileId \<notin> id_fr ` set (bucket c b')" by simp
  moreover have "find_paper fileId (bucket c PreviousYearPapers) = Some p"
    using Some by simp
  ultimately show ?thesis by blast
next
  case None
  note prev = None
  show ?thesis
  proof (cases "find_paper fileId (iaPapers c)")
    case (Some p)
    with assms prev have "p = r"
      and "c' = without_id fileId IaPapers c"
      by (simp_all add: find_and_remove_def)
    moreover have
      "search_order c = [PreviousYearPapers] @ IaPapers # map Notes (map fst (notes c))"
      by (simp add: search_order_def)
    moreover have "\<forall>b' \<in> set [PreviousYearPapers]. fileId \<notin> id_fr ` set (bucket c b')"
      using prev by (simp add: find_paper_None)
    moreover have "find_paper fileId (bucket c IaPapers) = Some p"
      using Some by simp
    ultimately show ?thesis by blast
  next
    case None
    note ia = None
    from assms prev ia obtain m where
      found: "find_note fileId (notes c) (map fst (notes c)) = Some (m, r)"
      and c': "c' = c\<lparr>notes := AList.update m
                 (filter (\<lambda>x. id_fr x \<noteq> fileId) (notes_at (notes c) m)) (notes c)\<rparr>"
      by (auto simp: find_and_remove_def split: option.splits)
    from find_note_Some [OF found] obtain pre post where
      keys: "map fst (notes c) = pre @ m # post"
      and before: "\<forall>m' \<in> set pre. fileId \<notin> id_fr ` set (notes_at (notes c) m')"
      and first: "find_paper fileId (notes_at (notes c) m) = Some r" by blast
    have "c' = without_id fileId (Notes m) c"
      by (simp add: c' notes_at_def)
    moreover have
      "search_order c = (PreviousYearPapers # IaPapers # map Notes pre) @ Notes m # map Notes post"
      using keys by (simp add: search_order_def)
    moreover have "\<forall>b' \<in> set (PreviousYearPapers # IaPapers # map Notes pre).
        fileId \<notin> id_fr ` set (bucket c b')"
      using prev ia before by (auto simp: find_paper_None notes_at_bucket)
    moreover have "find_paper fileId (bucket c (Notes m)) = Some r"
      using first by (simp add: notes_at_bucket)
    ultimately show ?thesis by blast
  qed
qed

lemma find_append_case:
  "find P (xs @ ys) = (case find P xs of None \<Rightarrow> find P ys | Some x \<Rightarrow> Some x)"
  by (induction xs) simp_all

text \<open>
  The search of the handler is the search of the specification: the first bucket in
  search order that holds the id, the first record of that bucket with the id, and the
  catalog without the records of the id in that bucket.
\<close>

lemma find_and_remove_spec:
  "find_and_remove fileId c =
     (case first_bucket fileId c of
        None \<Rightarrow> None
      | Some b \<Rightarrow>
          map_option (\<lambda>r. (r, without_id fileId b c))
            (find (\<lambda>r. id_fr r = fileId) (bucket c b)))"
proof (cases "find_and_remove fileId c")
  case None
  then have "fileId \<notin> id_fr ` set (search_sequence c)"
    by (simp add: find_and_remove_None)
  then have "first_bucket fileId c = None"
    by (auto simp: first_bucket_def find_None_iff search_sequence_def
        simp del: bucket.simps(3))
  with None show ?thesis by simp
next
  case (Some a)
  then obtain r c' where found: "find_and_remove fileId c = Some (r, c')"
    by (cases a) simp
  from find_and_remove_Some [OF found] obtain b pre post where
    order: "search_order c = pre @ b # post"
    and before: "\<forall>b' \<in> set pre. fileId \<notin> id_fr ` set (bucket c b')"
    and first: "find_paper fileId (bucket c b) = Some r"
    and c': "c' = without_id fileId b c" by blast
  have "find (\<lambda>b. fileId \<in> set (map id_fr (bucket c b))) pre = None"
    using before by (auto simp: find_None_iff)
  moreover have "fileId \<in> set (map id_fr (bucket c b))"
    using find_paper_Some [OF first] by auto
  ultimately have "first_bucket fileId c = Some b"
    by (simp add: first_bucket_def order find_append_case)
  with found first c' show ?thesis by (simp add: find_paper_find)
qed

text \<open>The first record of the whole sequence with the id lies in the first bucket.\<close>

lemma find_search_sequence:
  "find (\<lambda>r. id_fr r = fileId) (search_sequence c) =
     (case first_bucket fileId c of
        None \<Rightarrow> None
      | Some b \<Rightarrow> find (\<lambda>r. id_fr r = fileId) (bucket c b))"
proof -
  have "find (\<lambda>r. id_fr r = fileId) (concat (map (bucket c) bs)) =
     (case find (\<lambda>b. fileId \<in> set (map id_fr (bucket c b))) bs of
        None \<Rightarrow> None
      | Some b \<Rightarrow> find (\<lambda>r. id_fr r = fileId) (bucket c b))" for bs
  proof (induction bs)
    case Nil
    then show ?case by simp
  next
    case (Cons b bs)
    show ?case
    proof (cases "fileId \<in> set (map id_fr (bucket c b))")
      case True
      then obtain r where "find (\<lambda>r. id_fr r = fileId) (bucket c b) = Some r"
        by (cases "find (\<lambda>r. id_fr r = fileId) (bucket c b)")
           (auto simp: find_None_iff)
      with True show ?thesis by (simp add: find_append_case)
    next
      case False
      then have "find (\<lambda>r. id_fr r = fileId) (bucket c b) = None"
        by (auto simp: find_None_iff)
      with False Cons.IH show ?thesis by (simp add: find_append_case)
    qed
  qed
  then show ?thesis by (simp add: search_sequence_def first_bucket_def)
qed

text \<open>The catalog without an id, bucket by bucket.\<close>

lemma bucket_without_id_same:
  "bucket (without_id fileId b c) b = filter (\<lambda>r. id_fr r \<noteq> fileId) (bucket c b)"
  by (cases b) (simp_all add: update_conv')

lemma bucket_without_id_other:
  "b' \<noteq> b \<Longrightarrow> bucket (without_id fileId b c) b' = bucket c b'"
  by (cases b; cases b') (simp_all add: update_conv')

lemma keys_without_id:
  "b \<in> set (search_order c) \<Longrightarrow> map fst (notes (without_id fileId b c)) = map fst (notes c)"
  by (cases b) (auto simp: search_order_def update_keys)

subsection \<open>The example states\<close>

lemma one_paper_state_eq:
  "one_paper_state =
     \<lparr> subjectLists = [''subjects_CSE_3'' \<mapsto> [JString ''DS'']],
       catalogs = [''content_CSE_3_DS'' \<mapsto>
         default_content\<lparr>previousYearPapers :=
           [\<lparr> id_fr = ''42'', name = ''exam.pdf'',
              path = ''CSE/3/DS/previousYearPaper/41_exam.pdf'',
              uploadedAt = ''1970-01-01T00:00:00.042Z'' \<rparr>]\<rparr>],
       storage = [''CSE/3/DS/previousYearPaper/41_exam.pdf'' \<mapsto> [37, 80, 68, 70]],
       console = [] \<rparr>"
  by (simp add: one_paper_state_def post_admin_upload_def env_41_42_def exam_pdf_def
      empty_state_def truthy_def js_str_def Let_def string_of_nat.simps digit_char_def
      subjects_key_def content_key_def default_content_def js_includes_def)

lemma two_papers_state_eq:
  "two_papers_state =
     \<lparr> subjectLists = [''subjects_CSE_3'' \<mapsto> [JString ''DS'']],
       catalogs = [''content_CSE_3_DS'' \<mapsto>
         default_content\<lparr>previousYearPapers :=
           [\<lparr> id_fr = ''42'', name = ''exam.pdf'',
              path = ''CSE/3/DS/previousYearPaper/41_exam.pdf'',
              uploadedAt = ''1970-01-01T00:00:00.042Z'' \<rparr>,
            \<lparr> id_fr = ''42'', name = ''unit.pdf'',
              path = ''CSE/3/DS/previousYearPaper/42_unit.pdf'',
              uploadedAt = ''1970-01-01T00:00:00.042Z'' \<rparr>]\<rparr>],
       storage = [''CSE/3/DS/previousYearPaper/41_exam.pdf'' \<mapsto> [37, 80, 68, 70],
                  ''CSE/3/DS/previousYearPaper/42_unit.pdf'' \<mapsto> [37, 80, 68, 70, 45]],
       console = [] \<rparr>"
  unfolding two_papers_state_def one_paper_state_eq
  by (simp add: post_admin_upload_def env_42_42_def notes_pdf_def
      truthy_def js_str_def Let_def string_of_nat.simps digit_char_def
      subjects_key_def content_key_def default_content_def js_includes_def)

text \<open>The catalog of (CSE, 3, DS) after the four uploads.\<close>

lemma four_files_catalog:
  "catalogs four_files_state (content_key ''CSE'' ''3'' ''DS'') =
     Some \<lparr> previousYearPapers =
           [\<lparr> id_fr = ''42'', name = ''exam.pdf'',
              path = ''CSE/3/DS/previousYearPaper/41_exam.pdf'',
              uploadedAt = ''1970-01-01T00:00:00.042Z'' \<rparr>,
            \<lparr> id_fr = ''42'', name = ''unit.pdf'',
              path = ''CSE/3/DS/previousYearPaper/42_unit.pdf'',
              uploadedAt = ''1970-01-01T00:00:00.042Z'' \<rparr>],
          iaPapers =
           [\<lparr> id_fr = ''44'', name = ''lab.pdf'',
              path = ''CSE/3/DS/iaPaper/43_lab.pdf'',
              uploadedAt = ''1970-01-01T00:00:00.044Z'' \<rparr>],
          notes =
           [(''module1'', []),
            (''module2'',
              [\<lparr> id_fr = ''44'', name = ''exam.pdf'',
                 path = ''CSE/3/DS/notes/module2/43_exam.pdf'',
                 uploadedAt = ''1970-01-01T00:00:00.044Z'' \<rparr>]),
            (''module3'', []), (''module4'', []), (''module5'', [])] \<rparr>"
  unfolding four_files_state_def two_papers_state_eq
  by (simp add: post_admin_upload_def env_43_44_def lab_pdf_def exam_pdf_def
      truthy_def js_str_def Let_def string_of_nat.simps digit_char_def
      subjects_key_def content_key_def default_content_def js_includes_def)

lemma four_files_storage:
  "storage four_files_state =
     [''CSE/3/DS/previousYearPaper/41_exam.pdf'' \<mapsto> [37, 80, 68, 70],
      ''CSE/3/DS/previousYearPaper/42_unit.pdf'' \<mapsto> [37, 80, 68, 70, 45],
      ''CSE/3/DS/iaPaper/43_lab.pdf'' \<mapsto> [37, 80, 68, 70, 49],
      ''CSE/3/DS/notes/module2/43_exam.pdf'' \<mapsto> [37, 80, 68, 70]]"
  unfolding four_files_state_def two_papers_state_eq
  by (simp add: post_admin_upload_def env_43_44_def lab_pdf_def exam_pdf_def
      truthy_def js_str_def Let_def string_of_nat.simps digit_char_def
      subjects_key_def content_key_def default_content_def js_includes_def)

subsection \<open>Deleting\<close>

text \<open>
  The handler on a stored catalog, in the words of the specification: nothing happens
  when no bucket holds the id; otherwise the first record of the first such bucket is
  the file to delete, and the catalog is stored without the records of the id in that
  bucket.
\<close>

lemma delete_spec:
  assumes "catalogs st (content_key department semester subject) = Some c"
  shows "delete_admin_delete remove_error department semester subject fileId st =
    (case first_bucket fileId c of
       None \<Rightarrow> (Response 404 (ErrorJ ''File not found''), st)
     | Some b \<Rightarrow>
        (case find (\<lambda>r. id_fr r = fileId) (bucket c b) of
           None \<Rightarrow> (Response 404 (ErrorJ ''File not found''), st)
         | Some r \<Rightarrow>
            (Response 200 (MessageJ ''File deleted successfully''),
             (if remove_error
              then st\<lparr>console := console st @ [''Error deleting file from storage:'']\<rparr>
              else st\<lparr>storage := (storage st)(path r := None)\<rparr>)
               \<lparr>catalogs := (catalogs st)
                  (content_key department semester subject \<mapsto> without_id fileId b c)\<rparr>)))"
  using assms
  by (simp add: delete_admin_delete_def find_and_remove_spec
      split: option.splits)

lemma first_bucket_Some:
  assumes "first_bucket fileId c = Some b"
  shows "\<exists>pre post r. search_order c = pre @ b # post
     \<and> (\<forall>b' \<in> set pre. fileId \<notin> id_fr ` set (bucket c b'))
     \<and> find (\<lambda>r. id_fr r = fileId) (bucket c b) = Some r
     \<and> r \<in> set (bucket c b) \<and> id_fr r = fileId"
proof -
  from assms obtain i where i: "i < length (search_order c)"
    "fileId \<in> set (map id_fr (bucket c (search_order c ! i)))"
    "b = search_order c ! i"
    "\<forall>j<i. fileId \<notin> set (map id_fr (bucket c (search_order c ! j)))"
    unfolding first_bucket_def find_Some_iff by auto
  have split: "search_order c = take i (search_order c) @ b # drop (Suc i) (search_order c)"
    using i(1,3) by (simp add: id_take_nth_drop)
  have before: "\<forall>b' \<in> set (take i (search_order c)). fileId \<notin> id_fr ` set (bucket c b')"
  proof
    fix b' assume "b' \<in> set (take i (search_order c))"
    then obtain j where "j < i" "b' = search_order c ! j"
      using i(1) by (auto simp: in_set_conv_nth)
    with i(4) show "fileId \<notin> id_fr ` set (bucket c b')" by auto
  qed
  have mem: "fileId \<in> id_fr ` set (bucket c b)" using i(1,2,3) by simp
  then obtain r where r: "find (\<lambda>r. id_fr r = fileId) (bucket c b) = Some r"
    by (cases "find (\<lambda>r. id_fr r = fileId) (bucket c b)") (auto simp: find_None_iff)
  then have "r \<in> set (bucket c b) \<and> id_fr r = fileId"
    by (auto simp: find_Some_iff)
  with split before r show ?thesis by blast
qed

lemma first_bucket_found:
  assumes "fileId \<in> id_fr ` set (search_sequence c)"
  shows "\<exists>b. first_bucket fileId c = Some b"
proof (cases "first_bucket fileId c")
  case None
  then have "find_and_remove fileId c = None" by (simp add: find_and_remove_spec)
  with assms show ?thesis by (simp add: find_and_remove_None)
next
  case (Some b)
  then show ?thesis by blast
qed

text \<open>
  C3. When the id occurs in none of the lists of the catalog (no previous-year paper, no
  IA paper, no note of any module has it), or the subject has no catalog at all,
  \<open>delete_admin_delete\<close> answers 404 and the state after the call is the state before
  it: the catalog store, the blob store and the console are unchanged, whether or not the
  storage would have failed.
\<close>

theorem delete_unknown_id:
  assumes "case catalogs st (content_key department semester subject) of
             None \<Rightarrow> True
           | Some c \<Rightarrow> fileId \<notin> id_fr ` set (search_sequence c)"
  shows "status (fst (delete_admin_delete remove_error department semester subject fileId st)) = 404
       \<and> snd (delete_admin_delete remove_error department semester subject fileId st) = st"
  using assms
  by (auto simp: delete_admin_delete_def find_and_remove_None [symmetric] split: option.splits)

theorem delete_unknown_id_witness:
  "map_option (map id_fr \<circ> search_sequence)
       (catalogs one_paper_state (content_key ''CSE'' ''3'' ''DS'')) = Some [''42'']
   \<and> status (fst (delete_admin_delete False ''CSE'' ''3'' ''DS'' ''7'' one_paper_state)) = 404
   \<and> snd (delete_admin_delete False ''CSE'' ''3'' ''DS'' ''7'' one_paper_state) = one_paper_state"
proof -
  have cat: "map_option (map id_fr \<circ> search_sequence)
       (catalogs one_paper_state (content_key ''CSE'' ''3'' ''DS'')) = Some [''42'']"
    by (simp add: one_paper_state_eq content_key_def search_sequence_def search_order_def
        default_content_def)
  then have "case catalogs one_paper_state (content_key ''CSE'' ''3'' ''DS'') of
             None \<Rightarrow> True
           | Some c \<Rightarrow> ''7'' \<notin> id_fr ` set (search_sequence c)"
    by (auto split: option.splits)
  from delete_unknown_id [OF this] cat show ?thesis by blast
qed

text \<open>
  C4, as the handler has it. When some record of the catalog has the id,
  \<open>delete_admin_delete\<close> answers 200 and rewrites the catalog of the subject so that
  one bucket \<open>b\<close> has changed: the first bucket in search order that holds the id.
  That bucket loses every record with the id and keeps its other records in their
  order; every other bucket is as it was, and so are the keys of the notes object. When
  the bucket holds the id once, it is exactly one record shorter; when it holds the id
  more often, as after two uploads served within one millisecond, more than one record
  goes, while the handler removes the blob of the first of them only. The catalogs of the
  other subjects and the subject lists are not touched.
\<close>

theorem delete_removes_matches_of_first_bucket:
  assumes "catalogs st (content_key department semester subject) = Some c"
    and "fileId \<in> id_fr ` set (search_sequence c)"
  shows "\<exists>b pre post c' r.
      fst (delete_admin_delete remove_error department semester subject fileId st)
        = Response 200 (MessageJ ''File deleted successfully'')
    \<and> catalogs (snd (delete_admin_delete remove_error department semester subject fileId st))
        = (catalogs st)(content_key department semester subject \<mapsto> c')
    \<and> search_order c = pre @ b # post
    \<and> (\<forall>b' \<in> set pre. fileId \<notin> id_fr ` set (bucket c b'))
    \<and> fileId \<in> id_fr ` set (bucket c b)
    \<and> bucket c' b = filter (\<lambda>r. id_fr r \<noteq> fileId) (bucket c b)
    \<and> (\<forall>b'. b' \<noteq> b \<longrightarrow> bucket c' b' = bucket c b')
    \<and> map fst (notes c') = map fst (notes c)
    \<and> (length (filter (\<lambda>r. id_fr r = fileId) (bucket c b)) = 1
         \<longrightarrow> length (bucket c' b) + 1 = length (bucket c b))
    \<and> c' = without_id fileId b c
    \<and> subjectLists (snd (delete_admin_delete remove_error department semester subject
                            fileId st))
        = subjectLists st
    \<and> find (\<lambda>r. id_fr r = fileId) (bucket c b) = Some r
    \<and> storage (snd (delete_admin_delete False department semester subject fileId st))
        = (storage st)(path r := None)"
proof -
  from first_bucket_found [OF assms(2)] obtain b where b: "first_bucket fileId c = Some b"
    by blast
  from first_bucket_Some [OF b] obtain pre post r where
    order: "search_order c = pre @ b # post"
    and before: "\<forall>b' \<in> set pre. fileId \<notin> id_fr ` set (bucket c b')"
    and first: "find (\<lambda>r. id_fr r = fileId) (bucket c b) = Some r"
    and r: "r \<in> set (bucket c b) \<and> id_fr r = fileId" by blast
  let ?c' = "without_id fileId b c"
  have "length (filter (\<lambda>r. id_fr r \<noteq> fileId) (bucket c b))
        + length (filter (\<lambda>r. id_fr r = fileId) (bucket c b)) = length (bucket c b)"
    using sum_length_filter_compl [of "\<lambda>r. id_fr r = fileId" "bucket c b"] by simp
  then have once: "length (filter (\<lambda>r. id_fr r = fileId) (bucket c b)) = 1
         \<longrightarrow> length (bucket ?c' b) + 1 = length (bucket c b)"
    by (simp add: bucket_without_id_same)
  have "b \<in> set (search_order c)" using order by simp
  then have keys: "map fst (notes ?c') = map fst (notes c)" by (rule keys_without_id)
  have others: "\<forall>b'. b' \<noteq> b \<longrightarrow> bucket ?c' b' = bucket c b'"
    by (simp add: bucket_without_id_other)
  have same: "bucket ?c' b = filter (\<lambda>r. id_fr r \<noteq> fileId) (bucket c b)"
    by (rule bucket_without_id_same)
  have mem: "fileId \<in> id_fr ` set (bucket c b)" using r by blast
  have "fst (delete_admin_delete remove_error department semester subject fileId st)
        = Response 200 (MessageJ ''File deleted successfully'')"
    by (simp add: delete_spec [OF assms(1)] b first)
  moreover have
    "catalogs (snd (delete_admin_delete remove_error department semester subject fileId st))
        = (catalogs st)(content_key department semester subject \<mapsto> ?c')"
    by (simp add: delete_spec [OF assms(1)] b first)
  moreover have
    "subjectLists (snd (delete_admin_delete remove_error department semester subject
                            fileId st))
        = subjectLists st"
    by (simp add: delete_spec [OF assms(1)] b first)
  moreover have
    "storage (snd (delete_admin_delete False department semester subject fileId st))
        = (storage st)(path r := None)"
    by (simp add: delete_spec [OF assms(1)] b first)
  ultimately show ?thesis using order before mem same others keys once first by blast
qed

theorem delete_removes_matches_of_first_bucket_witness:
  "map_option (map name \<circ> search_sequence)
      (catalogs four_files_state (content_key ''CSE'' ''3'' ''DS''))
     = Some [''exam.pdf'', ''unit.pdf'', ''lab.pdf'', ''exam.pdf'']
   \<and> fst (delete_admin_delete False ''CSE'' ''3'' ''DS'' ''42'' four_files_state)
     = Response 200 (MessageJ ''File deleted successfully'')
   \<and> catalogs (snd (delete_admin_delete False ''CSE'' ''3'' ''DS'' ''42'' four_files_state))
        (content_key ''CSE'' ''3'' ''DS'')
     = Some \<lparr> previousYearPapers = [],
              iaPapers =
                [\<lparr> id_fr = ''44'', name = ''lab.pdf'',
                   path = ''CSE/3/DS/iaPaper/43_lab.pdf'',
                   uploadedAt = ''1970-01-01T00:00:00.044Z'' \<rparr>],
              notes =
                [(''module1'', []),
                 (''module2'',
                   [\<lparr> id_fr = ''44'', name = ''exam.pdf'',
                      path = ''CSE/3/DS/notes/module2/43_exam.pdf'',
                      uploadedAt = ''1970-01-01T00:00:00.044Z'' \<rparr>]),
                 (''module3'', []), (''module4'', []), (''module5'', [])] \<rparr>
   \<and> storage (snd (delete_admin_delete False ''CSE'' ''3'' ''DS'' ''42'' four_files_state))
        ''CSE/3/DS/previousYearPaper/41_exam.pdf'' = None
   \<and> storage (snd (delete_admin_delete False ''CSE'' ''3'' ''DS'' ''42'' four_files_state))
        ''CSE/3/DS/previousYearPaper/42_unit.pdf'' = Some [37, 80, 68, 70, 45]"
proof -
  have seq: "map_option (map name \<circ> search_sequence)
      (catalogs four_files_state (content_key ''CSE'' ''3'' ''DS''))
     = Some [''exam.pdf'', ''unit.pdf'', ''lab.pdf'', ''exam.pdf'']"
    by (simp add: four_files_catalog search_sequence_def search_order_def)
  have mem: "''42'' \<in> id_fr ` set (search_sequence
     \<lparr> previousYearPapers =
           [\<lparr> id_fr = ''42'', name = ''exam.pdf'',
              path = ''CSE/3/DS/previousYearPaper/41_exam.pdf'',
              uploadedAt = ''1970-01-01T00:00:00.042Z'' \<rparr>,
            \<lparr> id_fr = ''42'', name = ''unit.pdf'',
              path = ''CSE/3/DS/previousYearPaper/42_unit.pdf'',
              uploadedAt = ''1970-01-01T00:00:00.042Z'' \<rparr>],
          iaPapers =
           [\<lparr> id_fr = ''44'', name = ''lab.pdf'',
              path = ''CSE/3/DS/iaPaper/43_lab.pdf'',
              uploadedAt = ''1970-01-01T00:00:00.044Z'' \<rparr>],
          notes =
           [(''module1'', []),
            (''module2'',
              [\<lparr> id_fr = ''44'', name = ''exam.pdf'',
                 path = ''CSE/3/DS/notes/module2/43_exam.pdf'',
                 uploadedAt = ''1970-01-01T00:00:00.044Z'' \<rparr>]),
            (''module3'', []), (''module4'', []), (''module5'', [])] \<rparr>)"
    by (simp add: search_sequence_def search_order_def)
  from delete_removes_matches_of_first_bucket
    [OF four_files_catalog mem, where remove_error = False]
  have ok: "fst (delete_admin_delete False ''CSE'' ''3'' ''DS'' ''42'' four_files_state)
     = Response 200 (MessageJ ''File deleted successfully'')" by blast
  have after: "snd (delete_admin_delete False ''CSE'' ''3'' ''DS'' ''42'' four_files_state)
     = four_files_state
        \<lparr>storage := (storage four_files_state)
            (''CSE/3/DS/previousYearPaper/41_exam.pdf'' := None),
         catalogs := (catalogs four_files_state)
            (content_key ''CSE'' ''3'' ''DS'' \<mapsto>
              \<lparr> previousYearPapers = [],
                iaPapers =
                 [\<lparr> id_fr = ''44'', name = ''lab.pdf'',
                    path = ''CSE/3/DS/iaPaper/43_lab.pdf'',
                    uploadedAt = ''1970-01-01T00:00:00.044Z'' \<rparr>],
                notes =
                 [(''module1'', []),
                  (''module2'',
                    [\<lparr> id_fr = ''44'', name = ''exam.pdf'',
                       path = ''CSE/3/DS/notes/module2/43_exam.pdf'',
                       uploadedAt = ''1970-01-01T00:00:00.044Z'' \<rparr>]),
                  (''module3'', []), (''module4'', []), (''module5'', [])] \<rparr>)\<rparr>"
    by (simp add: delete_admin_delete_def four_files_catalog find_and_remove_def)
  show ?thesis
    using seq ok by (simp add: after four_files_storage)
qed

text \<open>
  C6, as the handler has it. \<open>search_sequence\<close> lists the previous-year papers, then
  the IA papers, then the notes of each module in the key order of the notes object.
  With a catalog stored for the subject, the whole outcome of \<open>delete_admin_delete\<close> is
  fixed by the first record of that sequence with the id and by the first bucket that
  holds the id: without them the answer is 404 and nothing changes; with them the answer
  is 200, the path removed from the blob store is the path of that record, and the
  catalog is stored without the records of the id in that bucket and otherwise as it
  was. That record is the first record of its bucket with the id, and no bucket before
  it holds the id. A later record of the same bucket that shares the id goes with it.
\<close>

theorem delete_takes_first_match:
  assumes "catalogs st (content_key department semester subject) = Some c"
  shows "delete_admin_delete remove_error department semester subject fileId st =
      (case (find (\<lambda>r. id_fr r = fileId) (search_sequence c), first_bucket fileId c) of
         (Some r, Some b) \<Rightarrow>
           (Response 200 (MessageJ ''File deleted successfully''),
            (if remove_error
             then st\<lparr>console := console st @ [''Error deleting file from storage:'']\<rparr>
             else st\<lparr>storage := (storage st)(path r := None)\<rparr>)
              \<lparr>catalogs := (catalogs st)
                 (content_key department semester subject \<mapsto> without_id fileId b c)\<rparr>)
       | _ \<Rightarrow> (Response 404 (ErrorJ ''File not found''), st))
    \<and> search_sequence c =
         previousYearPapers c @ iaPapers c
         @ concat (map (\<lambda>m. bucket c (Notes m)) (map fst (notes c)))
    \<and> (case first_bucket fileId c of
          None \<Rightarrow> find (\<lambda>r. id_fr r = fileId) (search_sequence c) = None
        | Some b \<Rightarrow>
            find (\<lambda>r. id_fr r = fileId) (search_sequence c)
              = find (\<lambda>r. id_fr r = fileId) (bucket c b)
          \<and> (\<exists>pre post r. search_order c = pre @ b # post
                \<and> (\<forall>b' \<in> set pre. fileId \<notin> id_fr ` set (bucket c b'))
                \<and> find (\<lambda>r. id_fr r = fileId) (bucket c b) = Some r))"
proof -
  have seq: "search_sequence c =
         previousYearPapers c @ iaPapers c
         @ concat (map (\<lambda>m. bucket c (Notes m)) (map fst (notes c)))"
    by (simp add: search_sequence_def search_order_def comp_def del: bucket.simps(3))
  show ?thesis
  proof (cases "first_bucket fileId c")
    case None
    have whole: "find (\<lambda>r. id_fr r = fileId) (search_sequence c) = None"
      by (simp add: find_search_sequence None)
    have "delete_admin_delete remove_error department semester subject fileId st
        = (Response 404 (ErrorJ ''File not found''), st)"
      by (simp add: delete_spec [OF assms] None)
    then show ?thesis
      by (simp only: None whole option.case prod.case simp_thms) (rule seq)
  next
    case (Some b)
    from first_bucket_Some [OF Some] obtain pre post r where
      order: "search_order c = pre @ b # post"
      and before: "\<forall>b' \<in> set pre. fileId \<notin> id_fr ` set (bucket c b')"
      and first: "find (\<lambda>r. id_fr r = fileId) (bucket c b) = Some r" by blast
    then have ex: "\<exists>pre post r. search_order c = pre @ b # post
                \<and> (\<forall>b' \<in> set pre. fileId \<notin> id_fr ` set (bucket c b'))
                \<and> find (\<lambda>r. id_fr r = fileId) (bucket c b) = Some r" by blast
    have whole: "find (\<lambda>r. id_fr r = fileId) (search_sequence c) = Some r"
      by (simp add: find_search_sequence Some first)
    have "delete_admin_delete remove_error department semester subject fileId st
        = (Response 200 (MessageJ ''File deleted successfully''),
            (if remove_error
             then st\<lparr>console := console st @ [''Error deleting file from storage:'']\<rparr>
             else st\<lparr>storage := (storage st)(path r := None)\<rparr>)
              \<lparr>catalogs := (catalogs st)
                 (content_key department semester subject \<mapsto> without_id fileId b c)\<rparr>)"
      by (simp add: delete_spec [OF assms] Some first)
    then show ?thesis
      using ex
      by (simp only: Some whole first option.case prod.case simp_thms) (rule seq)
  qed
qed

theorem delete_takes_first_match_witness:
  "map_option (map name \<circ> search_sequence)
      (catalogs two_papers_state (content_key ''CSE'' ''3'' ''DS''))
     = Some [''exam.pdf'', ''unit.pdf'']
   \<and> map_option (map_option name \<circ> find (\<lambda>r. id_fr r = ''42'') \<circ> search_sequence)
      (catalogs two_papers_state (content_key ''CSE'' ''3'' ''DS''))
     = Some (Some ''exam.pdf'')
   \<and> delete_admin_delete False ''CSE'' ''3'' ''DS'' ''42'' two_papers_state
     = (Response 200 (MessageJ ''File deleted successfully''),
        two_papers_state
          \<lparr>storage := (storage two_papers_state)
              (''CSE/3/DS/previousYearPaper/41_exam.pdf'' := None),
           catalogs := (catalogs two_papers_state)
              (content_key ''CSE'' ''3'' ''DS'' \<mapsto> default_content)\<rparr>)
   \<and> storage two_papers_state ''CSE/3/DS/previousYearPaper/42_unit.pdf''
     = Some [37, 80, 68, 70, 45]"
proof -
  let ?exam = "\<lparr> id_fr = ''42'', name = ''exam.pdf'',
              path = ''CSE/3/DS/previousYearPaper/41_exam.pdf'',
              uploadedAt = ''1970-01-01T00:00:00.042Z'' \<rparr>"
  let ?unit = "\<lparr> id_fr = ''42'', name = ''unit.pdf'',
              path = ''CSE/3/DS/previousYearPaper/42_unit.pdf'',
              uploadedAt = ''1970-01-01T00:00:00.042Z'' \<rparr>"
  let ?c = "default_content\<lparr>previousYearPapers := [?exam, ?unit]\<rparr>"
  have cat: "catalogs two_papers_state (content_key ''CSE'' ''3'' ''DS'') = Some ?c"
    by (simp add: two_papers_state_eq content_key_def)
  have seq: "search_sequence ?c = [?exam, ?unit]"
    by (simp add: search_sequence_def search_order_def default_content_def)
  have fb: "first_bucket ''42'' ?c = Some PreviousYearPapers"
    by (simp add: first_bucket_def search_order_def default_content_def)
  have wo: "without_id ''42'' PreviousYearPapers ?c = default_content"
    by (simp add: default_content_def)
  have first: "find (\<lambda>r. id_fr r = ''42'') [?exam, ?unit] = Some ?exam" by simp
  from delete_takes_first_match
    [OF cat, where fileId = "''42''" and remove_error = False]
  have "delete_admin_delete False ''CSE'' ''3'' ''DS'' ''42'' two_papers_state
     = (case (find (\<lambda>r. id_fr r = ''42'') (search_sequence ?c), first_bucket ''42'' ?c) of
         (Some r, Some b) \<Rightarrow>
           (Response 200 (MessageJ ''File deleted successfully''),
            (if False
             then two_papers_state\<lparr>console := console two_papers_state
                    @ [''Error deleting file from storage:'']\<rparr>
             else two_papers_state\<lparr>storage := (storage two_papers_state)(path r := None)\<rparr>)
              \<lparr>catalogs := (catalogs two_papers_state)
                 (content_key ''CSE'' ''3'' ''DS'' \<mapsto> without_id ''42'' b ?c)\<rparr>)
       | _ \<Rightarrow> (Response 404 (ErrorJ ''File not found''), two_papers_state))"
    by (rule conjunct1)
  then have "delete_admin_delete False ''CSE'' ''3'' ''DS'' ''42'' two_papers_state
     = (Response 200 (MessageJ ''File deleted successfully''),
        two_papers_state
          \<lparr>storage := (storage two_papers_state)
              (''CSE/3/DS/previousYearPaper/41_exam.pdf'' := None),
           catalogs := (catalogs two_papers_state)
              (content_key ''CSE'' ''3'' ''DS'' \<mapsto> default_content)\<rparr>)"
    by (simp only: seq fb wo first option.case prod.case if_False)
       (simp add: default_content_def)
  moreover have "storage two_papers_state ''CSE/3/DS/previousYearPaper/42_unit.pdf''
     = Some [37, 80, 68, 70, 45]"
    by (simp add: two_papers_state_eq)
  ultimately show ?thesis by (simp add: cat seq)
qed

text \<open>
  C7. When the search finds a record and the storage remove reports an error, the error
  is written to the console and nothing else comes of it: the answer is the 200 of the
  delete whose remove succeeds, the catalog stored is the catalog that delete stores
  (the catalog without the records of the id in the first bucket that holds it), and the
  blob store is as it was, so the blob of the record stays behind while the catalog no
  longer lists it.
\<close>

theorem delete_survives_storage_failure:
  assumes "catalogs st (content_key department semester subject) = Some c"
    and "fileId \<in> id_fr ` set (search_sequence c)"
  shows "\<exists>r b.
      find (\<lambda>x. id_fr x = fileId) (search_sequence c) = Some r
    \<and> first_bucket fileId c = Some b
    \<and> delete_admin_delete True department semester subject fileId st =
        (Response 200 (MessageJ ''File deleted successfully''),
         st\<lparr>console := console st @ [''Error deleting file from storage:''],
            catalogs := (catalogs st)
              (content_key department semester subject \<mapsto> without_id fileId b c)\<rparr>)
    \<and> delete_admin_delete False department semester subject fileId st =
        (Response 200 (MessageJ ''File deleted successfully''),
         st\<lparr>storage := (storage st)(path r := None),
            catalogs := (catalogs st)
              (content_key department semester subject \<mapsto> without_id fileId b c)\<rparr>)
    \<and> storage (snd (delete_admin_delete True department semester subject fileId st))
        = storage st
    \<and> r \<in> set (bucket c b)
    \<and> fileId \<notin> id_fr ` set (bucket (without_id fileId b c) b)"
proof -
  from first_bucket_found [OF assms(2)] obtain b where b: "first_bucket fileId c = Some b"
    by blast
  from first_bucket_Some [OF b] obtain r where
    first: "find (\<lambda>r. id_fr r = fileId) (bucket c b) = Some r"
    and r: "r \<in> set (bucket c b)" by blast
  have "find (\<lambda>x. id_fr x = fileId) (search_sequence c) = Some r"
    by (simp add: find_search_sequence b first)
  moreover have "delete_admin_delete True department semester subject fileId st =
        (Response 200 (MessageJ ''File deleted successfully''),
         st\<lparr>console := console st @ [''Error deleting file from storage:''],
            catalogs := (catalogs st)
              (content_key department semester subject \<mapsto> without_id fileId b c)\<rparr>)"
    by (simp add: delete_spec [OF assms(1)] b first)
  moreover have "delete_admin_delete False department semester subject fileId st =
        (Response 200 (MessageJ ''File deleted successfully''),
         st\<lparr>storage := (storage st)(path r := None),
            catalogs := (catalogs st)
              (content_key department semester subject \<mapsto> without_id fileId b c)\<rparr>)"
    by (simp add: delete_spec [OF assms(1)] b first)
  moreover have
    "storage (snd (delete_admin_delete True department semester subject fileId st))
        = storage st"
    by (simp add: delete_spec [OF assms(1)] b first)
  moreover have "fileId \<notin> id_fr ` set (bucket (without_id fileId b c) b)"
    by (auto simp: bucket_without_id_same)
  ultimately show ?thesis using b r by blast
qed

theorem delete_survives_storage_failure_witness:
  "storage four_files_state ''CSE/3/DS/iaPaper/43_lab.pdf'' = Some [37, 80, 68, 70, 49]
   \<and> delete_admin_delete True ''CSE'' ''3'' ''DS'' ''44'' four_files_state =
       (Response 200 (MessageJ ''File deleted successfully''),
        four_files_state
          \<lparr>console := console four_files_state @ [''Error deleting file from storage:''],
           catalogs := (catalogs four_files_state)
             (content_key ''CSE'' ''3'' ''DS'' \<mapsto>
               \<lparr> previousYearPapers =
                   [\<lparr> id_fr = ''42'', name = ''exam.pdf'',
                      path = ''CSE/3/DS/previousYearPaper/41_exam.pdf'',
                      uploadedAt = ''1970-01-01T00:00:00.042Z'' \<rparr>,
                    \<lparr> id_fr = ''42'', name = ''unit.pdf'',
                      path = ''CSE/3/DS/previousYearPaper/42_unit.pdf'',
                      uploadedAt = ''1970-01-01T00:00:00.042Z'' \<rparr>],
                 iaPapers = [],
                 notes =
                   [(''module1'', []),
                    (''module2'',
                      [\<lparr> id_fr = ''44'', name = ''exam.pdf'',
                         path = ''CSE/3/DS/notes/module2/43_exam.pdf'',
                         uploadedAt = ''1970-01-01T00:00:00.044Z'' \<rparr>]),
                    (''module3'', []), (''module4'', []), (''module5'', [])] \<rparr>)\<rparr>)"
proof -
  let ?c = "\<lparr> previousYearPapers =
           [\<lparr> id_fr = ''42'', name = ''exam.pdf'',
              path = ''CSE/3/DS/previousYearPaper/41_exam.pdf'',
              uploadedAt = ''1970-01-01T00:00:00.042Z'' \<rparr>,
            \<lparr> id_fr = ''42'', name = ''unit.pdf'',
              path = ''CSE/3/DS/previousYearPaper/42_unit.pdf'',
              uploadedAt = ''1970-01-01T00:00:00.042Z'' \<rparr>],
          iaPapers =
           [\<lparr> id_fr = ''44'', name = ''lab.pdf'',
              path = ''CSE/3/DS/iaPaper/43_lab.pdf'',
              uploadedAt = ''1970-01-01T00:00:00.044Z'' \<rparr>],
          notes =
           [(''module1'', []),
            (''module2'',
              [\<lparr> id_fr = ''44'', name = ''exam.pdf'',
                 path = ''CSE/3/DS/notes/module2/43_exam.pdf'',
                 uploadedAt = ''1970-01-01T00:00:00.044Z'' \<rparr>]),
            (''module3'', []), (''module4'', []), (''module5'', [])] \<rparr>"
  have mem: "''44'' \<in> id_fr ` set (search_sequence ?c)"
    by (simp add: search_sequence_def search_order_def)
  have fb: "first_bucket ''44'' ?c = Some IaPapers"
    by (simp add: first_bucket_def search_order_def)
  from delete_survives_storage_failure [OF four_files_catalog mem]
  have "delete_admin_delete True ''CSE'' ''3'' ''DS'' ''44'' four_files_state =
        (Response 200 (MessageJ ''File deleted successfully''),
         four_files_state
           \<lparr>console := console four_files_state @ [''Error deleting file from storage:''],
            catalogs := (catalogs four_files_state)
              (content_key ''CSE'' ''3'' ''DS'' \<mapsto> without_id ''44'' IaPapers ?c)\<rparr>)"
    unfolding fb by blast
  then show ?thesis by (simp add: four_files_storage)
qed

subsection \<open>Adding a subject\<close>

text \<open>The handler on a body whose three members are truthy.\<close>

lemma post_subjects_truthy:
  assumes "map_of ms ''department'' = Some d" "map_of ms ''semester'' = Some s"
    and "map_of ms ''subject'' = Some v"
    and "js_truthy (Some d)" "js_truthy (Some s)" "js_truthy (Some v)"
  shows "post_subjects (Some (JObject ms)) st =
    (case (js_to_string d, js_to_string s) of
       (Some dtext, Some stext) \<Rightarrow>
         (Response 200 (MessageJ ''Subject added successfully''),
          if js_includes
               (case subjectLists st (subjects_key dtext stext) of
                  None \<Rightarrow> [] | Some xs \<Rightarrow> xs) v
          then st
          else st\<lparr>subjectLists := (subjectLists st)
                 (subjects_key dtext stext \<mapsto>
                    (case subjectLists st (subjects_key dtext stext) of
                       None \<Rightarrow> [] | Some xs \<Rightarrow> xs) @ [v])\<rparr>)
     | _ \<Rightarrow>
         (Response 500 (ErrorJ ''Internal server error during subject addition''),
          st\<lparr>console := console st @ [''Add subject server error:'']\<rparr>))"
  using assms by (simp add: post_subjects_def Let_def split: option.splits)

text \<open>
  C5, as the handler has it. Take a body whose department, semester and subject are
  truthy. When the department or the semester has no string form, both calls answer 500
  and no subject list changes. Otherwise both calls answer 200, and what the second call
  does hangs on the subject: a string, a number or a boolean is found in the list the
  first call left, so the second call changes nothing, and from an absent or empty list
  the list holds the subject once; an array or an object is identical to no element of
  the stored list, so the second call appends it again and the list ends with the
  subject twice.
\<close>

theorem post_subjects_twice:
  assumes "map_of ms ''department'' = Some d" "map_of ms ''semester'' = Some s"
    and "map_of ms ''subject'' = Some v"
    and "js_truthy (Some d)" "js_truthy (Some s)" "js_truthy (Some v)"
  shows "case (js_to_string d, js_to_string s) of
       (Some dtext, Some stext) \<Rightarrow>
           fst (post_subjects (Some (JObject ms)) st)
             = Response 200 (MessageJ ''Subject added successfully'')
         \<and> fst (post_subjects (Some (JObject ms)) (snd (post_subjects (Some (JObject ms)) st)))
             = Response 200 (MessageJ ''Subject added successfully'')
         \<and> (\<not> js_is_object v \<longrightarrow>
               snd (post_subjects (Some (JObject ms))
                     (snd (post_subjects (Some (JObject ms)) st)))
                 = snd (post_subjects (Some (JObject ms)) st)
             \<and> (subjectLists st (subjects_key dtext stext) \<in> {None, Some []} \<longrightarrow>
                  subjectLists
                    (snd (post_subjects (Some (JObject ms))
                       (snd (post_subjects (Some (JObject ms)) st))))
                    (subjects_key dtext stext) = Some [v]))
         \<and> (js_is_object v \<longrightarrow>
               subjectLists
                 (snd (post_subjects (Some (JObject ms))
                    (snd (post_subjects (Some (JObject ms)) st))))
                 (subjects_key dtext stext)
               = Some ((case subjectLists st (subjects_key dtext stext) of
                          None \<Rightarrow> [] | Some xs \<Rightarrow> xs) @ [v, v]))
     | _ \<Rightarrow>
           status (fst (post_subjects (Some (JObject ms)) st)) = 500
         \<and> status (fst (post_subjects (Some (JObject ms))
                      (snd (post_subjects (Some (JObject ms)) st)))) = 500
         \<and> subjectLists (snd (post_subjects (Some (JObject ms))
                      (snd (post_subjects (Some (JObject ms)) st))))
             = subjectLists st"
proof (cases "js_to_string d")
  case None
  then show ?thesis by (simp add: post_subjects_truthy [OF assms])
next
  case (Some dtext)
  note d = Some
  show ?thesis
  proof (cases "js_to_string s")
    case None
    then show ?thesis by (simp add: post_subjects_truthy [OF assms] d)
  next
    case (Some stext)
    let ?key = "subjects_key dtext stext"
    let ?existing = "case subjectLists st ?key of None \<Rightarrow> [] | Some xs \<Rightarrow> xs"
    let ?st1 = "snd (post_subjects (Some (JObject ms)) st)"
    have once: "post_subjects (Some (JObject ms)) st =
        (Response 200 (MessageJ ''Subject added successfully''),
         if js_includes ?existing v then st
         else st\<lparr>subjectLists := (subjectLists st)(?key \<mapsto> ?existing @ [v])\<rparr>)"
      by (simp add: post_subjects_truthy [OF assms] d Some)
    have again: "post_subjects (Some (JObject ms)) ?st1 =
        (Response 200 (MessageJ ''Subject added successfully''),
         if js_includes (case subjectLists ?st1 ?key of None \<Rightarrow> [] | Some xs \<Rightarrow> xs) v
         then ?st1
         else ?st1\<lparr>subjectLists := (subjectLists ?st1)
                (?key \<mapsto> (case subjectLists ?st1 ?key of None \<Rightarrow> [] | Some xs \<Rightarrow> xs) @ [v])\<rparr>)"
      by (simp add: post_subjects_truthy [OF assms] d Some)
    have prim: "\<not> js_is_object v \<Longrightarrow>
        js_includes (case subjectLists ?st1 ?key of None \<Rightarrow> [] | Some xs \<Rightarrow> xs) v"
      by (auto simp: once js_includes_def split: option.splits)
    have prim_first: "\<not> js_is_object v \<Longrightarrow> subjectLists st ?key \<in> {None, Some []} \<Longrightarrow>
        subjectLists ?st1 ?key = Some [v]"
      by (auto simp: once js_includes_def)
    have obj: "js_is_object v \<Longrightarrow>
        subjectLists (snd (post_subjects (Some (JObject ms)) ?st1)) ?key
          = Some (?existing @ [v, v])"
      by (simp add: again, simp add: once js_includes_def)
    have idem: "\<not> js_is_object v \<Longrightarrow> snd (post_subjects (Some (JObject ms)) ?st1) = ?st1"
      using prim by (simp add: again)
    have "\<not> js_is_object v \<longrightarrow>
               snd (post_subjects (Some (JObject ms)) ?st1) = ?st1
             \<and> (subjectLists st ?key \<in> {None, Some []} \<longrightarrow>
                  subjectLists (snd (post_subjects (Some (JObject ms)) ?st1)) ?key = Some [v])"
    proof (intro impI conjI)
      assume p: "\<not> js_is_object v"
      show "snd (post_subjects (Some (JObject ms)) ?st1) = ?st1" by (rule idem [OF p])
      assume "subjectLists st ?key \<in> {None, Some []}"
      from prim_first [OF p this]
      show "subjectLists (snd (post_subjects (Some (JObject ms)) ?st1)) ?key = Some [v]"
        by (simp only: idem [OF p])
    qed
    moreover have "fst (post_subjects (Some (JObject ms)) st)
             = Response 200 (MessageJ ''Subject added successfully'')"
      by (simp add: once)
    moreover have "fst (post_subjects (Some (JObject ms)) ?st1)
             = Response 200 (MessageJ ''Subject added successfully'')"
      by (simp add: again)
    ultimately show ?thesis
      using obj by (simp only: d Some option.case prod.case) blast
  qed
qed

theorem post_subjects_twice_witness:
  "subjectLists empty_state (subjects_key ''CSE'' ''3'') = None
   \<and> subjectLists
       (snd (post_subjects (Some array_subject_body)
          (snd (post_subjects (Some array_subject_body) empty_state))))
       (subjects_key ''CSE'' ''3'')
     = Some [JArray [JString ''DS''], JArray [JString ''DS'']]
   \<and> subjectLists
       (snd (post_subjects (Some string_subject_body)
          (snd (post_subjects (Some string_subject_body) empty_state))))
       (subjects_key ''CSE'' ''3'')
     = Some [JString ''DS'']"
proof -
  have empty: "subjectLists empty_state (subjects_key ''CSE'' ''3'') = None"
    by (simp add: empty_state_def)
  have m: "map_of [(''department'', JString ''CSE''), (''semester'', JString ''3''),
              (''subject'', JArray [JString ''DS''])] ''department'' = Some (JString ''CSE'')"
    "map_of [(''department'', JString ''CSE''), (''semester'', JString ''3''),
              (''subject'', JArray [JString ''DS''])] ''semester'' = Some (JString ''3'')"
    "map_of [(''department'', JString ''CSE''), (''semester'', JString ''3''),
              (''subject'', JArray [JString ''DS''])] ''subject'' = Some (JArray [JString ''DS''])"
    "js_truthy (Some (JString ''CSE''))" "js_truthy (Some (JString ''3''))"
    "js_truthy (Some (JArray [JString ''DS'']))"
    by simp_all
  have n: "map_of [(''department'', JString ''CSE''), (''semester'', JString ''3''),
              (''subject'', JString ''DS'')] ''department'' = Some (JString ''CSE'')"
    "map_of [(''department'', JString ''CSE''), (''semester'', JString ''3''),
              (''subject'', JString ''DS'')] ''semester'' = Some (JString ''3'')"
    "map_of [(''department'', JString ''CSE''), (''semester'', JString ''3''),
              (''subject'', JString ''DS'')] ''subject'' = Some (JString ''DS'')"
    "js_truthy (Some (JString ''CSE''))" "js_truthy (Some (JString ''3''))"
    "js_truthy (Some (JString ''DS''))"
    by simp_all
  from post_subjects_twice [OF m, of empty_state] empty
  have arr: "subjectLists
       (snd (post_subjects (Some array_subject_body)
          (snd (post_subjects (Some array_subject_body) empty_state))))
       (subjects_key ''CSE'' ''3'')
     = Some [JArray [JString ''DS''], JArray [JString ''DS'']]"
    unfolding array_subject_body_def
    by (simp only: js_to_string.simps prod.case option.case js_is_object.simps) simp
  from post_subjects_twice [OF n, of empty_state] empty
  have str: "subjectLists
       (snd (post_subjects (Some string_subject_body)
          (snd (post_subjects (Some string_subject_body) empty_state))))
       (subjects_key ''CSE'' ''3'')
     = Some [JString ''DS'']"
    unfolding string_subject_body_def
    by (simp only: js_to_string.simps prod.case option.case js_is_object.simps) blast
  from empty arr str show ?thesis by blast
qed

subsection \<open>The two upload routes\<close>

text \<open>
  C9. The handler of \<^verbatim>\<open>POST /upload\<close> and the handler of
  \<^verbatim>\<open>POST /admin/upload\<close> are the same function of the clock, the storage outcome,
  the form fields and the state: the same response and the same state after, on every
  input.
\<close>

theorem post_upload_is_post_admin_upload: "post_upload = post_admin_upload"
  unfolding post_upload_def post_admin_upload_def by (rule refl)

theorem post_upload_is_post_admin_upload_witness:
  "post_upload env_41_42 (Some exam_pdf) (Some ''CSE'') (Some ''3'') (Some ''DS'')
      (Some ''previousYearPaper'') None empty_state
   = post_admin_upload env_41_42 (Some exam_pdf) (Some ''CSE'') (Some ''3'') (Some ''DS'')
      (Some ''previousYearPaper'') None empty_state"
  by (simp add: post_upload_is_post_admin_upload)

subsection \<open>Uploading\<close>

lemma one_paper_catalog:
  "catalogs one_paper_state (content_key ''CSE'' ''3'' ''DS'') =
     Some (default_content\<lparr>previousYearPapers :=
           [\<lparr> id_fr = ''42'', name = ''exam.pdf'',
              path = ''CSE/3/DS/previousYearPaper/41_exam.pdf'',
              uploadedAt = ''1970-01-01T00:00:00.042Z'' \<rparr>]\<rparr>)"
  by (simp add: one_paper_state_eq content_key_def)

lemma js_str_Some: "js_str (Some s) = s"
  by (simp add: js_str_def)

lemma truthy_Some: "truthy (Some s) \<longleftrightarrow> s \<noteq> []"
  by (simp add: truthy_def)

lemma truthy_None: "\<not> truthy None"
  by (simp add: truthy_def)

text \<open>
  C1, as the handler has it. The check of line 258 does not look at \<^verbatim>\<open>module\<close>. An
  upload of notes whose other fields are non-empty and whose module is absent or empty
  is not rejected: when the storage accepts the file, the handler answers 200 with a file
  record, binds the path (without a module segment) to the bytes in the blob store, and
  sets the catalog key of the subject to the catalog it read, or to the default catalog
  when there was none; the record is added to no list. The admin page refuses the same
  upload before it sends it (\<^verbatim>\<open>Please select a module for notes upload.\<close>).
\<close>

theorem upload_notes_without_module:
  assumes "truthy department" "truthy semester" "truthy subject"
    and "\<not> truthy module" and "\<not> upload_error env"
  shows "fst (post_admin_upload env (Some f) department semester subject (Some ''notes'')
               module st)
         = Response 200 (UploadedJ ''File uploaded successfully''
             \<lparr> id_fr = string_of_nat (now_id env), name = file_name f,
               path = js_str department @ ''/'' @ js_str semester @ ''/'' @ js_str subject
                 @ ''/notes/'' @ string_of_nat (now_name env) @ ''_'' @ file_name f,
               uploadedAt = now_iso env \<rparr>)
       \<and> storage (snd (post_admin_upload env (Some f) department semester subject
                          (Some ''notes'') module st))
         = (storage st)
             (js_str department @ ''/'' @ js_str semester @ ''/'' @ js_str subject
                @ ''/notes/'' @ string_of_nat (now_name env) @ ''_'' @ file_name f
              \<mapsto> file_bytes f)
       \<and> catalogs (snd (post_admin_upload env (Some f) department semester subject
                           (Some ''notes'') module st))
         = (catalogs st)
             (content_key (js_str department) (js_str semester) (js_str subject)
              \<mapsto> (case catalogs st
                           (content_key (js_str department) (js_str semester) (js_str subject))
                    of None \<Rightarrow> default_content | Some c \<Rightarrow> c))"
  using assms by (simp add: post_admin_upload_def Let_def truthy_Some js_str_Some)

theorem upload_notes_without_module_witness:
  "storage (snd (post_admin_upload env_41_42 (Some exam_pdf) (Some ''CSE'') (Some ''3'')
                   (Some ''DS'') (Some ''notes'') None empty_state))
     = [''CSE/3/DS/notes/41_exam.pdf'' \<mapsto> [37, 80, 68, 70]]
   \<and> catalogs (snd (post_admin_upload env_41_42 (Some exam_pdf) (Some ''CSE'') (Some ''3'')
                   (Some ''DS'') (Some ''notes'') None empty_state))
     = [''content_CSE_3_DS'' \<mapsto> default_content]
   \<and> subjectLists (snd (post_admin_upload env_41_42 (Some exam_pdf) (Some ''CSE'')
                   (Some ''3'') (Some ''DS'') (Some ''notes'') None empty_state))
     = [''subjects_CSE_3'' \<mapsto> [JString ''DS'']]
   \<and> fst (post_admin_upload env_41_42 (Some exam_pdf) (Some ''CSE'') (Some ''3'')
                   (Some ''DS'') (Some ''notes'') None empty_state)
     = Response 200 (UploadedJ ''File uploaded successfully''
             \<lparr> id_fr = ''42'', name = ''exam.pdf'', path = ''CSE/3/DS/notes/41_exam.pdf'',
               uploadedAt = ''1970-01-01T00:00:00.042Z'' \<rparr>)"
proof -
  have t: "truthy (Some ''CSE'')" "truthy (Some ''3'')" "truthy (Some ''DS'')"
    "\<not> truthy None" "\<not> upload_error env_41_42"
    by (simp_all add: truthy_def env_41_42_def)
  have subj: "subjectLists (snd (post_admin_upload env_41_42 (Some exam_pdf) (Some ''CSE'')
                   (Some ''3'') (Some ''DS'') (Some ''notes'') None empty_state))
     = [''subjects_CSE_3'' \<mapsto> [JString ''DS'']]"
    by (simp add: post_admin_upload_def Let_def truthy_def js_str_def env_41_42_def
        empty_state_def subjects_key_def js_includes_def)
  from upload_notes_without_module [OF t, of exam_pdf empty_state] subj
  show ?thesis
    by (simp add: js_str_def env_41_42_def exam_pdf_def empty_state_def content_key_def
        string_of_nat.simps digit_char_def)
qed

lemma upload_missing_fields:
  assumes "\<not> truthy department \<or> \<not> truthy semester \<or> \<not> truthy subject
           \<or> \<not> truthy contentType"
  shows "post_admin_upload env file department semester subject contentType module st
         = (Response 400 (ErrorJ ''Missing required fields''), st)"
  using assms by (cases "file") (simp_all add: post_admin_upload_def)

lemma upload_storage_error:
  assumes "truthy department" "truthy semester" "truthy subject" "truthy contentType"
    and "upload_error env"
  shows "post_admin_upload env (Some f) department semester subject contentType module st
         = (Response 500 (ErrorJ ''Failed to upload file''),
            st\<lparr>console := console st @ [''File upload error:'']\<rparr>)"
  using assms by (simp add: post_admin_upload_def Let_def)

text \<open>
  C8, as the handler has it. Every upload answered with 200 carried a file, and wrote
  the bytes of that file to the blob store at one path, the path of the record it
  returns: department, semester, subject and content type, each followed by a slash;
  then \<^verbatim>\<open>module\<close>, the module and a slash when a non-empty module was sent, and
  nothing otherwise; then the clock reading in decimal, an underscore and the name of
  the file. Line 264 does not look at the content type, although line 256 keeps the
  module for notes only and line 303 uses it for notes only: a previous-year paper sent
  with module 3 is stored under \<^verbatim>\<open>module3/\<close>, and nothing is stored at the path
  without the segment.
\<close>

theorem upload_writes_at_path:
  assumes "status (fst (post_admin_upload env file department semester subject contentType
                          module st)) = 200"
  shows "\<exists>f msg fileRecord.
      file = Some f
    \<and> fst (post_admin_upload env file department semester subject contentType module st)
        = Response 200 (UploadedJ msg fileRecord)
    \<and> path fileRecord
        = js_str department @ ''/'' @ js_str semester @ ''/'' @ js_str subject @ ''/''
          @ js_str contentType @ ''/''
          @ (if truthy module then ''module'' @ js_str module @ ''/'' else [])
          @ string_of_nat (now_name env) @ ''_'' @ file_name f
    \<and> storage (snd (post_admin_upload env file department semester subject contentType
                       module st))
        = (storage st)(path fileRecord \<mapsto> file_bytes f)"
proof (cases "file")
  case None
  with assms show ?thesis by (simp add: post_admin_upload_def)
next
  case (Some f)
  show ?thesis
  proof (cases "\<not> truthy department \<or> \<not> truthy semester \<or> \<not> truthy subject
           \<or> \<not> truthy contentType")
    case True
    with assms show ?thesis by (simp add: upload_missing_fields)
  next
    case False
    then have v: "truthy department" "truthy semester" "truthy subject" "truthy contentType"
      by simp_all
    show ?thesis
    proof (cases "upload_error env")
      case True
      with assms Some show ?thesis by (simp add: upload_storage_error [OF v])
    next
      case False
      with assms Some v show ?thesis
        by (simp add: post_admin_upload_def Let_def split: option.splits if_splits) blast+
    qed
  qed
qed


theorem upload_writes_at_path_witness:
  "status (fst (post_admin_upload env_41_42 (Some exam_pdf) (Some ''CSE'') (Some ''3'')
                  (Some ''DS'') (Some ''previousYearPaper'') (Some ''3'') empty_state)) = 200
   \<and> storage (snd (post_admin_upload env_41_42 (Some exam_pdf) (Some ''CSE'') (Some ''3'')
                  (Some ''DS'') (Some ''previousYearPaper'') (Some ''3'') empty_state))
       = [''CSE/3/DS/previousYearPaper/module3/41_exam.pdf'' \<mapsto> [37, 80, 68, 70]]
   \<and> claimed_path 41 ''CSE'' ''3'' ''DS'' ''previousYearPaper'' (Some ''3'') ''exam.pdf''
       = ''CSE/3/DS/previousYearPaper/41_exam.pdf''
   \<and> storage (snd (post_admin_upload env_41_42 (Some exam_pdf) (Some ''CSE'') (Some ''3'')
                  (Some ''DS'') (Some ''previousYearPaper'') (Some ''3'') empty_state))
         (claimed_path 41 ''CSE'' ''3'' ''DS'' ''previousYearPaper'' (Some ''3'') ''exam.pdf'')
       = None"
proof -
  have ok: "fst (post_admin_upload env_41_42 (Some exam_pdf) (Some ''CSE'') (Some ''3'')
                   (Some ''DS'') (Some ''previousYearPaper'') (Some ''3'') empty_state)
     = Response 200 (UploadedJ ''File uploaded successfully''
             \<lparr> id_fr = ''42'', name = ''exam.pdf'',
               path = ''CSE/3/DS/previousYearPaper/module3/41_exam.pdf'',
               uploadedAt = ''1970-01-01T00:00:00.042Z'' \<rparr>)"
    by (simp add: post_admin_upload_def Let_def truthy_Some js_str_Some env_41_42_def
        exam_pdf_def empty_state_def subjects_key_def content_key_def default_content_def
        string_of_nat.simps digit_char_def js_includes_def)
  then have s200: "status (fst (post_admin_upload env_41_42 (Some exam_pdf) (Some ''CSE'')
      (Some ''3'') (Some ''DS'') (Some ''previousYearPaper'') (Some ''3'') empty_state)) = 200"
    by simp
  from upload_writes_at_path [OF s200] ok
  have stored: "storage (snd (post_admin_upload env_41_42 (Some exam_pdf) (Some ''CSE'')
      (Some ''3'') (Some ''DS'') (Some ''previousYearPaper'') (Some ''3'') empty_state))
       = [''CSE/3/DS/previousYearPaper/module3/41_exam.pdf'' \<mapsto> [37, 80, 68, 70]]"
    by (auto simp: exam_pdf_def empty_state_def)
  have claimed:
    "claimed_path 41 ''CSE'' ''3'' ''DS'' ''previousYearPaper'' (Some ''3'') ''exam.pdf''
       = ''CSE/3/DS/previousYearPaper/41_exam.pdf''"
    by (simp add: claimed_path_def string_of_nat.simps digit_char_def)
  show ?thesis
    using s200 by (simp add: stored claimed)
qed

text \<open>
  C10, as the handler has it. Take an upload of notes that passes the check of line 258,
  with a non-empty module for which the catalog of the subject (the stored one, or the
  default one when none is stored) has no bucket, and let the storage accept the file.
  The append throws and the handler answers 500. By then the bytes are in the blob store
  at the path with the module segment, and the subject has been added to the subject
  list of (department, semester) if it was not in it. No catalog is written, and the
  throw is logged.
\<close>

theorem upload_to_missing_bucket:
  assumes "truthy department" "truthy semester" "truthy subject" "truthy module"
    and "\<not> upload_error env"
    and "map_of (notes (case catalogs st
                          (content_key (js_str department) (js_str semester) (js_str subject))
                        of None \<Rightarrow> default_content | Some c \<Rightarrow> c))
           (''module'' @ js_str module) = None"
  shows "fst (post_admin_upload env (Some f) department semester subject (Some ''notes'')
               module st)
         = Response 500 (ErrorJ ''Internal server error during file upload'')
       \<and> storage (snd (post_admin_upload env (Some f) department semester subject
                          (Some ''notes'') module st))
         = (storage st)
             (js_str department @ ''/'' @ js_str semester @ ''/'' @ js_str subject
                @ ''/notes/module'' @ js_str module @ ''/''
                @ string_of_nat (now_name env) @ ''_'' @ file_name f
              \<mapsto> file_bytes f)
       \<and> catalogs (snd (post_admin_upload env (Some f) department semester subject
                           (Some ''notes'') module st))
         = catalogs st
       \<and> subjectLists (snd (post_admin_upload env (Some f) department semester subject
                           (Some ''notes'') module st))
         = (case subjectLists st (subjects_key (js_str department) (js_str semester)) of
              None \<Rightarrow> (subjectLists st)
                (subjects_key (js_str department) (js_str semester)
                   \<mapsto> [JString (js_str subject)])
            | Some xs \<Rightarrow>
                if JString (js_str subject) \<in> set xs then subjectLists st
                else (subjectLists st)
                  (subjects_key (js_str department) (js_str semester)
                     \<mapsto> xs @ [JString (js_str subject)]))
       \<and> console (snd (post_admin_upload env (Some f) department semester subject
                           (Some ''notes'') module st))
         = console st @ [''Upload server error:'']"
  using assms
  by (simp add: post_admin_upload_def Let_def truthy_Some js_str_Some js_includes_def
      split: option.splits)

theorem upload_to_missing_bucket_witness:
  "fst (post_admin_upload env_41_42 (Some exam_pdf) (Some ''CSE'') (Some ''3'')
                   (Some ''DS'') (Some ''notes'') (Some ''9'') one_paper_state)
     = Response 500 (ErrorJ ''Internal server error during file upload'')
   \<and> storage (snd (post_admin_upload env_41_42 (Some exam_pdf) (Some ''CSE'') (Some ''3'')
                   (Some ''DS'') (Some ''notes'') (Some ''9'') one_paper_state))
     = (storage one_paper_state)(''CSE/3/DS/notes/module9/41_exam.pdf'' \<mapsto> [37, 80, 68, 70])
   \<and> catalogs (snd (post_admin_upload env_41_42 (Some exam_pdf) (Some ''CSE'') (Some ''3'')
                   (Some ''DS'') (Some ''notes'') (Some ''9'') one_paper_state))
     = catalogs one_paper_state
   \<and> subjectLists (snd (post_admin_upload env_41_42 (Some exam_pdf) (Some ''CSE'')
                   (Some ''3'') (Some ''DS'') (Some ''notes'') (Some ''9'') one_paper_state))
     = subjectLists one_paper_state"
proof -
  have t: "truthy (Some ''CSE'')" "truthy (Some ''3'')" "truthy (Some ''DS'')"
    "truthy (Some ''9'')" "\<not> upload_error env_41_42"
    by (simp_all add: truthy_def env_41_42_def)
  have nokey: "map_of (notes (case catalogs one_paper_state
              (content_key (js_str (Some ''CSE'')) (js_str (Some ''3'')) (js_str (Some ''DS'')))
            of None \<Rightarrow> default_content | Some c \<Rightarrow> c))
           (''module'' @ js_str (Some ''9'')) = None"
    by (simp add: js_str_Some one_paper_catalog default_content_def)
  have subj: "subjectLists one_paper_state (subjects_key ''CSE'' ''3'')
      = Some [JString ''DS'']"
    by (simp add: one_paper_state_eq subjects_key_def)
  from upload_to_missing_bucket [OF t nokey, of exam_pdf] subj
  show ?thesis
    by (simp add: js_str_Some env_41_42_def exam_pdf_def
        string_of_nat.simps digit_char_def)
qed

text \<open>
  The claim as worded has the whole catalog store unchanged. The subject list is part of
  that store and is written before the append: on the empty store the failed upload
  leaves the subject DS registered under (CSE, 3).
\<close>

theorem upload_to_missing_bucket_counterexample:
  "fst (post_admin_upload env_41_42 (Some exam_pdf) (Some ''CSE'') (Some ''3'')
                   (Some ''DS'') (Some ''notes'') (Some ''9'') empty_state)
     = Response 500 (ErrorJ ''Internal server error during file upload'')
   \<and> subjectLists empty_state ''subjects_CSE_3'' = None
   \<and> subjectLists (snd (post_admin_upload env_41_42 (Some exam_pdf) (Some ''CSE'')
                   (Some ''3'') (Some ''DS'') (Some ''notes'') (Some ''9'') empty_state))
        ''subjects_CSE_3''
     = Some [JString ''DS'']"
  by (simp add: post_admin_upload_def Let_def truthy_Some js_str_Some env_41_42_def
      exam_pdf_def empty_state_def subjects_key_def content_key_def default_content_def
      string_of_nat.simps digit_char_def js_includes_def)

end
